theory Spec2Isabelle
  imports Main "HOL-Library.Char_ord" "HOL-Library.List_Lexorder"
begin

section \<open>Values of the program\<close>

text \<open>
  The program (\<^verbatim>\<open>sprint8.py\<close>) keeps owners, pets and visits of a veterinary clinic in
  an SQLite file, through Python's \<^verbatim>\<open>sqlite3\<close> module. The embedding fixes the types
  the program's own callers supply: names and free text are \<^verbatim>\<open>str\<close>, ages and ids are
  \<^verbatim>\<open>int\<close>, Python's integers without bound, dates are \<^verbatim>\<open>datetime.date\<close>. A text is a
  list of 8-bit characters, each standing for one character of the string. The
  libraries are taken as CPython 3.11 has them on Linux (glibc), with SQLite 3.46.
\<close>

subsection \<open>Exceptions\<close>

text \<open>
  \<^verbatim>\<open>sqlite3.Error\<close> is the base class of the exceptions of the database module; the
  store catches exactly this class. \<^verbatim>\<open>ValueError\<close> is raised by \<^verbatim>\<open>Consulta.__init__\<close>,
  \<^verbatim>\<open>EOFError\<close> by \<^verbatim>\<open>input()\<close> when the console has no further line,
  \<^verbatim>\<open>OverflowError\<close> by the database module for a parameter that is an \<^verbatim>\<open>int\<close> outside
  the range of the engine's 64-bit INTEGER, and \<^verbatim>\<open>AttributeError\<close> by a call on the
  cursor when there is none. None of the last four is an \<^verbatim>\<open>sqlite3.Error\<close>.
\<close>

datatype sqlite_error = IntegrityError | OperationalError

datatype pyexn = SqliteError sqlite_error | ValueError | EOFError | OverflowError | AttributeError

text \<open>\<^verbatim>\<open>except sqlite3.Error: return v\<close>: any other exception passes through.\<close>

fun except_sqlite3_Error :: "pyexn \<Rightarrow> 'a \<Rightarrow> pyexn + 'a" where
  "except_sqlite3_Error (SqliteError e) v = Inr v"
| "except_sqlite3_Error ValueError v = Inl ValueError"
| "except_sqlite3_Error EOFError v = Inl EOFError"
| "except_sqlite3_Error OverflowError v = Inl OverflowError"
| "except_sqlite3_Error AttributeError v = Inl AttributeError"

subsection \<open>Text\<close>

text \<open>\<^verbatim>\<open>str.strip()\<close>: leading and trailing white space is removed.\<close>

definition isspace :: "char \<Rightarrow> bool" where
  "isspace c \<longleftrightarrow>
     (let n = (of_char c :: nat)
      in (9 \<le> n \<and> n \<le> 13) \<or> (28 \<le> n \<and> n \<le> 32) \<or> n = 133 \<or> n = 160)"

definition strip :: "string \<Rightarrow> string" where
  "strip s = rev (dropWhile isspace (rev (dropWhile isspace s)))"

text \<open>
  The LIKE operator of SQLite, as \<^verbatim>\<open>nombre LIKE ?\<close> uses it (no ESCAPE clause): in the
  pattern \<^verbatim>\<open>%\<close> matches any run of characters, also the empty one, \<^verbatim>\<open>_\<close> matches any one
  character, and every other character matches itself, the letters A to Z without regard
  to case. The first argument is the pattern (the bound parameter), the second the
  column value.
\<close>

definition sql_upper :: "char \<Rightarrow> char" where
  "sql_upper c =
     (let n = (of_char c :: nat) in if 97 \<le> n \<and> n \<le> 122 then char_of (n - 32) else c)"

fun sql_like :: "string \<Rightarrow> string \<Rightarrow> bool" where
  "sql_like [] s = (s = [])"
| "sql_like (p # ps) [] = (p = CHR ''%'' \<and> sql_like ps [])"
| "sql_like (p # ps) (c # cs) =
     (if p = CHR ''%'' then sql_like ps (c # cs) \<or> sql_like (p # ps) cs
      else (p = CHR ''_'' \<or> sql_upper p = sql_upper c) \<and> sql_like ps cs)"

text \<open>
  The engine refuses a LIKE pattern longer than this many bytes (its default limit). It
  holds a text in UTF-8: a character below 128 is one byte, each other character of a
  text of the model (below 256) is two.
\<close>

definition SQLITE_MAX_LIKE_PATTERN_LENGTH :: nat where
  "SQLITE_MAX_LIKE_PATTERN_LENGTH = 50000"

definition utf8_length :: "string \<Rightarrow> nat" where
  "utf8_length s = sum_list (map (\<lambda>c. if (of_char c :: nat) < 128 then 1 else 2) s)"

subsection \<open>Calendar dates\<close>

text \<open>
  A \<^verbatim>\<open>datetime.date\<close> is a year from 1 to 9999, a month and a day of that month;
  \<open>valid_date\<close> is what the constructor of \<^verbatim>\<open>date\<close> checks. Dates compare as the
  triples (year, month, day).
\<close>

record date =
  year :: nat
  month :: nat
  day :: nat

definition is_leap :: "nat \<Rightarrow> bool" where
  "is_leap y \<longleftrightarrow> y mod 4 = 0 \<and> (y mod 100 \<noteq> 0 \<or> y mod 400 = 0)"

definition days_in_month :: "nat \<Rightarrow> nat \<Rightarrow> nat" where
  "days_in_month y m =
     (if m = 2 then (if is_leap y then 29 else 28)
      else if m = 4 \<or> m = 6 \<or> m = 9 \<or> m = 11 then 30 else 31)"

definition valid_date :: "date \<Rightarrow> bool" where
  "valid_date d \<longleftrightarrow>
     1 \<le> year d \<and> year d \<le> 9999 \<and> 1 \<le> month d \<and> month d \<le> 12 \<and>
     1 \<le> day d \<and> day d \<le> days_in_month (year d) (month d)"

definition date_le :: "date \<Rightarrow> date \<Rightarrow> bool" where
  "date_le a b \<longleftrightarrow>
     year a < year b \<or>
     (year a = year b \<and> (month a < month b \<or> (month a = month b \<and> day a \<le> day b)))"

text \<open>
  \<^verbatim>\<open>fecha.strftime("%Y-%m-%d")\<close> is the \<^verbatim>\<open>strftime\<close> of the C library: \<^verbatim>\<open>%Y\<close> is the year
  as a decimal number, with no padding, so that a year below 1000 has fewer than four
  digits; \<^verbatim>\<open>%m\<close> and \<^verbatim>\<open>%d\<close> are two digits, zero padded.
\<close>

definition digit :: "nat \<Rightarrow> char" where
  "digit n = char_of (48 + n)"

fun decimal :: "nat \<Rightarrow> string" where
  "decimal n = (if n < 10 then [digit n] else decimal (n div 10) @ [digit (n mod 10)])"

declare decimal.simps [simp del]

definition pad2 :: "nat \<Rightarrow> string" where
  "pad2 n = [digit (n div 10 mod 10), digit (n mod 10)]"

definition strftime_Ymd :: "date \<Rightarrow> string" where
  "strftime_Ymd d = decimal (year d) @ ''-'' @ pad2 (month d) @ ''-'' @ pad2 (day d)"

text \<open>
  \<^verbatim>\<open>fecha.isoformat()\<close>, which is how the database module binds a \<^verbatim>\<open>date\<close> that is
  passed as a parameter: the year in four digits, zero padded.
\<close>

definition pad4 :: "nat \<Rightarrow> string" where
  "pad4 n = [digit (n div 1000 mod 10), digit (n div 100 mod 10),
             digit (n div 10 mod 10), digit (n mod 10)]"

definition isoformat :: "date \<Rightarrow> string" where
  "isoformat d = pad4 (year d) @ ''-'' @ pad2 (month d) @ ''-'' @ pad2 (day d)"

text \<open>
  \<^verbatim>\<open>datetime.strptime(s, "%Y-%m-%d").date()\<close>. The library matches the text against
  \<^verbatim>\<open>(\d\d\d\d)-(1[0-2]|0[1-9]|[1-9])-(3[0-1]|[1-2]\d|0[1-9]|[1-9]| [1-9])\<close>, the
  alternatives in this order, rejects text left over after the match, and then builds the
  date, which rejects the year 0 and a day the month does not have. \<open>None\<close> stands for
  the \<^verbatim>\<open>ValueError\<close> raised in each of these cases.
\<close>

definition is_digit :: "char \<Rightarrow> bool" where
  "is_digit c \<longleftrightarrow> 48 \<le> (of_char c :: nat) \<and> (of_char c :: nat) \<le> 57"

definition in_range :: "char \<Rightarrow> nat \<Rightarrow> nat \<Rightarrow> bool" where
  "in_range c lo hi \<longleftrightarrow> 48 + lo \<le> (of_char c :: nat) \<and> (of_char c :: nat) \<le> 48 + hi"

definition digit_val :: "char \<Rightarrow> nat" where
  "digit_val c = (of_char c :: nat) - 48"

fun match_month :: "string \<Rightarrow> (nat \<times> string) option" where
  "match_month (a # b # rest) =
     (if a = CHR ''1'' \<and> in_range b 0 2 then Some (10 + digit_val b, rest)
      else if a = CHR ''0'' \<and> in_range b 1 9 then Some (digit_val b, rest)
      else if in_range a 1 9 then Some (digit_val a, b # rest)
      else None)"
| "match_month [a] = (if in_range a 1 9 then Some (digit_val a, []) else None)"
| "match_month [] = None"

fun match_day :: "string \<Rightarrow> (nat \<times> string) option" where
  "match_day (a # b # rest) =
     (if a = CHR ''3'' \<and> in_range b 0 1 then Some (30 + digit_val b, rest)
      else if in_range a 1 2 \<and> is_digit b then Some (10 * digit_val a + digit_val b, rest)
      else if a = CHR ''0'' \<and> in_range b 1 9 then Some (digit_val b, rest)
      else if in_range a 1 9 then Some (digit_val a, b # rest)
      else if a = CHR '' '' \<and> in_range b 1 9 then Some (digit_val b, rest)
      else None)"
| "match_day [a] = (if in_range a 1 9 then Some (digit_val a, []) else None)"
| "match_day [] = None"

fun strptime_Ymd :: "string \<Rightarrow> date option" where
  "strptime_Ymd (a # b # c # d # e # rest) =
     (if is_digit a \<and> is_digit b \<and> is_digit c \<and> is_digit d \<and> e = CHR ''-'' then
        (case match_month rest of
           None \<Rightarrow> None
         | Some (m, rest1) \<Rightarrow>
             (case rest1 of
                [] \<Rightarrow> None
              | f # rest2 \<Rightarrow>
                  if f = CHR ''-'' then
                    (case match_day rest2 of
                       None \<Rightarrow> None
                     | Some (dd, rest3) \<Rightarrow>
                         let r = \<lparr>year = 1000 * digit_val a + 100 * digit_val b
                                          + 10 * digit_val c + digit_val d,
                                  month = m, day = dd\<rparr>
                         in if rest3 = [] \<and> valid_date r then Some r else None)
                  else None))
      else None)"
| "strptime_Ymd _ = None"

section \<open>The database\<close>

subsection \<open>Tables and connection\<close>

text \<open>
  The three tables of \<^verbatim>\<open>create_tables\<close>, a row per record, each table in the order of
  its row ids (the order of a table scan). An id held in a Python variable is an
  \<^verbatim>\<open>int\<close> or \<^verbatim>\<open>None\<close> (the \<^verbatim>\<open>id=None\<close> of the classes), and \<^verbatim>\<open>None\<close> is bound as NULL, which
  a reference column may hold and which equals no id. \<open>seq_\<close> is the counter the engine
  keeps for an AUTOINCREMENT key (table \<^verbatim>\<open>sqlite_sequence\<close>). \<open>foreign_keys\<close> is the connection's
  setting of that name: the engine enforces the FOREIGN KEY clauses, and runs their
  ON DELETE CASCADE actions, only while it is on. The state is the one the program's
  single connection sees.
\<close>

record propietario_row =
  p_id :: int
  p_nombre :: string
  p_telefono :: string
  p_direccion :: string

record mascota_row =
  m_id :: int
  m_nombre :: string
  m_especie :: string
  m_raza :: string
  m_edad :: int
  m_id_propietario :: "int option"

record consulta_row =
  c_id :: int
  c_fecha :: string
  c_motivo :: string
  c_diagnostico :: string
  c_id_mascota :: "int option"

record database =
  propietarios :: "propietario_row list"
  mascotas :: "mascota_row list"
  consultas :: "consulta_row list"
  seq_propietarios :: int
  seq_mascotas :: int
  seq_consultas :: int
  foreign_keys :: bool

text \<open>
  \<^verbatim>\<open>DatabaseManager.__init__\<close> on a new file. \<^verbatim>\<open>connect\<close> calls \<^verbatim>\<open>sqlite3.connect\<close>, which
  opens the connection, with the engine's default for \<open>foreign_keys\<close>, which is off (no
  statement of the program sets it), or raises an \<^verbatim>\<open>sqlite3.Error\<close> (a file that cannot
  be opened); the handler of \<^verbatim>\<open>connect\<close> logs the error and returns, and \<^verbatim>\<open>conn\<close> and
  \<^verbatim>\<open>cursor\<close> are still \<^verbatim>\<open>None\<close>. The value of \<open>connect\<close> is the setting of the connection
  made, or \<open>None\<close>. \<^verbatim>\<open>create_tables\<close> then calls \<^verbatim>\<open>self.cursor.execute\<close>: without a
  cursor this raises \<^verbatim>\<open>AttributeError\<close>, which its handler does not catch, and no
  \<^verbatim>\<open>DatabaseManager\<close> comes to be; with one, it creates the three tables, empty. (An
  \<^verbatim>\<open>sqlite3.Error\<close> inside \<^verbatim>\<open>create_tables\<close> is logged by its handler; a table that was
  not created makes each later statement on it fail, which is a fault of that statement,
  below.)
\<close>

definition connect :: "sqlite_error option \<Rightarrow> bool option" where
  "connect err = (case err of None \<Rightarrow> Some False | Some e \<Rightarrow> None)"

definition create_tables :: "bool option \<Rightarrow> pyexn + database" where
  "create_tables cursor =
     (case cursor of
        None \<Rightarrow> Inl AttributeError
      | Some fk \<Rightarrow>
          Inr \<lparr>propietarios = [], mascotas = [], consultas = [],
               seq_propietarios = 0, seq_mascotas = 0, seq_consultas = 0, foreign_keys = fk\<rparr>)"

definition DatabaseManager :: "sqlite_error option \<Rightarrow> pyexn + database" where
  "DatabaseManager err = create_tables (connect err)"

subsection \<open>Faults\<close>

text \<open>
  Any call into the engine may fail with an \<^verbatim>\<open>sqlite3.Error\<close> for a reason outside the
  program (the file, the disk, a lock). A fault names the place it strikes and the error
  raised there; \<open>None\<close> is a run without fault. The places are \<^verbatim>\<open>cursor.execute\<close> while it
  compiles the statement (a table that is missing, a file that cannot be read),
  \<^verbatim>\<open>cursor.execute\<close> while the statement runs, \<^verbatim>\<open>conn.commit\<close>, and
  \<^verbatim>\<open>cursor.fetchone\<close>/\<^verbatim>\<open>fetchall\<close>. A failed \<^verbatim>\<open>execute\<close> changes nothing; a failed
  \<^verbatim>\<open>commit\<close> leaves the statement's effect in the connection's open transaction.
\<close>

datatype stage = AtCompile | AtRun | AtCommit | AtFetch

type_synonym fault = "stage \<times> sqlite_error"

definition raised :: "fault option \<Rightarrow> stage \<Rightarrow> sqlite_error option" where
  "raised flt st =
     (case flt of None \<Rightarrow> None | Some (st', e) \<Rightarrow> if st' = st then Some e else None)"

text \<open>
  \<^verbatim>\<open>cursor.execute(sql, parameters)\<close> has three steps. The statement is compiled: a text
  that is no statement of the language is an \<^verbatim>\<open>OperationalError\<close> (a syntax error). The
  parameters are bound: \<^verbatim>\<open>None\<close> is NULL, a \<^verbatim>\<open>str\<close> is a TEXT, and an \<^verbatim>\<open>int\<close> is an
  INTEGER when it is within 64 bits, and raises \<^verbatim>\<open>OverflowError\<close> when it is not. The
  statement runs, with the result or the error \<open>r\<close>. The arguments of \<open>execute\<close> are
  whether the text compiles, and those of the parameters that are an \<^verbatim>\<open>int\<close> or \<^verbatim>\<open>None\<close>.
\<close>

definition sqlite_integer :: "int option \<Rightarrow> bool" where
  "sqlite_integer v \<longleftrightarrow>
     (case v of None \<Rightarrow> True
      | Some n \<Rightarrow> - 9223372036854775808 \<le> n \<and> n \<le> 9223372036854775807)"

definition execute ::
  "fault option \<Rightarrow> bool \<Rightarrow> int option list \<Rightarrow> sqlite_error + 'a \<Rightarrow> pyexn + 'a" where
  "execute flt compiles parameters r =
     (case raised flt AtCompile of
        Some e \<Rightarrow> Inl (SqliteError e)
      | None \<Rightarrow>
          if \<not> compiles then Inl (SqliteError OperationalError)
          else if \<not> list_all sqlite_integer parameters then Inl OverflowError
          else (case raised flt AtRun of
                  Some e \<Rightarrow> Inl (SqliteError e)
                | None \<Rightarrow> (case r of Inl e \<Rightarrow> Inl (SqliteError e) | Inr v \<Rightarrow> Inr v)))"

definition commit :: "fault option \<Rightarrow> pyexn + unit" where
  "commit flt = (case raised flt AtCommit of Some e \<Rightarrow> Inl (SqliteError e) | None \<Rightarrow> Inr ())"

definition fetchall :: "fault option \<Rightarrow> 'a list \<Rightarrow> pyexn + 'a list" where
  "fetchall flt rows = (case raised flt AtFetch of Some e \<Rightarrow> Inl (SqliteError e) | None \<Rightarrow> Inr rows)"

definition fetchone :: "fault option \<Rightarrow> 'a list \<Rightarrow> pyexn + 'a option" where
  "fetchone flt rows =
     (case raised flt AtFetch of
        Some e \<Rightarrow> Inl (SqliteError e)
      | None \<Rightarrow> Inr (case rows of [] \<Rightarrow> None | r # _ \<Rightarrow> Some r))"

subsection \<open>Statements\<close>

text \<open>
  The new row id of an AUTOINCREMENT key: one more than the largest id the table holds
  or has ever held; the insert fails when that would pass the largest 64-bit integer.
\<close>

definition new_rowid :: "int \<Rightarrow> int list \<Rightarrow> sqlite_error + int" where
  "new_rowid seq ids =
     (let top = fold max ids seq
      in if top \<ge> 9223372036854775807 then Inl OperationalError else Inr (top + 1))"

text \<open>\<^verbatim>\<open>INSERT INTO propietarios (nombre, telefono, direccion) VALUES (?, ?, ?)\<close>;
  \<^verbatim>\<open>nombre\<close> is UNIQUE. The result is \<^verbatim>\<open>lastrowid\<close>.\<close>

definition sql_insert_propietario ::
  "string \<Rightarrow> string \<Rightarrow> string \<Rightarrow> database \<Rightarrow> sqlite_error + int \<times> database" where
  "sql_insert_propietario n t d db =
     (case new_rowid (seq_propietarios db) (map p_id (propietarios db)) of
        Inl e \<Rightarrow> Inl e
      | Inr i \<Rightarrow>
          if n \<in> set (map p_nombre (propietarios db)) then Inl IntegrityError
          else Inr (i, db\<lparr>propietarios := propietarios db @
                            [\<lparr>p_id = i, p_nombre = n, p_telefono = t, p_direccion = d\<rparr>],
                          seq_propietarios := i\<rparr>))"

text \<open>
  \<^verbatim>\<open>SELECT id, nombre, telefono, direccion FROM propietarios WHERE nombre LIKE ?\<close>. The
  engine applies LIKE to each row, and the first application fails on a pattern over the
  limit, counted in bytes.
\<close>

definition sql_select_propietarios_like ::
  "string \<Rightarrow> database \<Rightarrow> sqlite_error + propietario_row list" where
  "sql_select_propietarios_like pat db =
     (if propietarios db \<noteq> [] \<and> utf8_length pat > SQLITE_MAX_LIKE_PATTERN_LENGTH
      then Inl OperationalError
      else Inr (filter (\<lambda>r. sql_like pat (p_nombre r)) (propietarios db)))"

text \<open>\<^verbatim>\<open>SELECT id, nombre, telefono, direccion FROM propietarios WHERE id = ?\<close>\<close>

definition sql_select_propietarios_id ::
  "int option \<Rightarrow> database \<Rightarrow> sqlite_error + propietario_row list" where
  "sql_select_propietarios_id i db = Inr (filter (\<lambda>r. Some (p_id r) = i) (propietarios db))"

text \<open>\<^verbatim>\<open>SELECT id, nombre, telefono, direccion FROM propietarios\<close>\<close>

definition sql_select_propietarios :: "database \<Rightarrow> sqlite_error + propietario_row list" where
  "sql_select_propietarios db = Inr (propietarios db)"

text \<open>
  The \<^verbatim>\<open>new_data\<close> of an update is a dict from field names to new values; the model
  holds it as the list of its items, each key with the type of its column. The statement
  is \<^verbatim>\<open>UPDATE propietarios SET k1 = ?, k2 = ? ... WHERE id = ?\<close>. With no item the SET
  clause is empty and the text does not compile (the store passes this to \<open>execute\<close>);
  \<open>sql_update_propietarios\<close> is what the statement does when it runs. A new name that
  another row has violates UNIQUE and aborts the statement. The result is
  \<^verbatim>\<open>rowcount\<close>.
\<close>

datatype propietario_item = Nombre_p string | Telefono_p string | Direccion_p string

fun set_propietario :: "propietario_row \<Rightarrow> propietario_item \<Rightarrow> propietario_row" where
  "set_propietario r (Nombre_p v) = r\<lparr>p_nombre := v\<rparr>"
| "set_propietario r (Telefono_p v) = r\<lparr>p_telefono := v\<rparr>"
| "set_propietario r (Direccion_p v) = r\<lparr>p_direccion := v\<rparr>"

definition set_propietarios :: "propietario_item list \<Rightarrow> propietario_row \<Rightarrow> propietario_row" where
  "set_propietarios new_data r = fold (\<lambda>x r. set_propietario r x) new_data r"

definition sql_update_propietarios ::
  "propietario_item list \<Rightarrow> int option \<Rightarrow> database \<Rightarrow> sqlite_error + nat \<times> database" where
  "sql_update_propietarios new_data i db =
     (let hit = filter (\<lambda>r. Some (p_id r) = i) (propietarios db);
          other = filter (\<lambda>r. Some (p_id r) \<noteq> i) (propietarios db)
      in if \<exists>r \<in> set hit. p_nombre (set_propietarios new_data r) \<noteq> p_nombre r \<and>
              p_nombre (set_propietarios new_data r) \<in> set (map p_nombre other)
         then Inl IntegrityError
         else Inr (length hit,
                   db\<lparr>propietarios :=
                        map (\<lambda>r. if Some (p_id r) = i then set_propietarios new_data r else r)
                            (propietarios db)\<rparr>))"

text \<open>
  \<^verbatim>\<open>DELETE FROM propietarios WHERE id = ?\<close>. With \<open>foreign_keys\<close> on, the pets that
  reference a deleted owner go with it, and the visits that reference those pets
  (ON DELETE CASCADE); with it off, only rows of \<^verbatim>\<open>propietarios\<close> are deleted.
  \<^verbatim>\<open>rowcount\<close> counts the rows of the named table.
\<close>

definition sql_delete_propietarios ::
  "int option \<Rightarrow> database \<Rightarrow> sqlite_error + nat \<times> database" where
  "sql_delete_propietarios i db =
     (let hit = filter (\<lambda>r. Some (p_id r) = i) (propietarios db);
          db1 = db\<lparr>propietarios := filter (\<lambda>r. Some (p_id r) \<noteq> i) (propietarios db)\<rparr>
      in if foreign_keys db \<and> hit \<noteq> [] then
           let gone = map m_id (filter (\<lambda>m. m_id_propietario m = i) (mascotas db))
           in Inr (length hit,
                   db1\<lparr>mascotas := filter (\<lambda>m. m_id_propietario m \<noteq> i) (mascotas db),
                       consultas := filter (\<lambda>c. c_id_mascota c \<notin> Some ` set gone) (consultas db)\<rparr>)
         else Inr (length hit, db1))"

text \<open>
  \<^verbatim>\<open>INSERT INTO mascotas (nombre, especie, raza, edad, id_propietario) VALUES (?, ?, ?, ?, ?)\<close>.
  With \<open>foreign_keys\<close> on, a reference that is not NULL must be the id of an owner.
\<close>

definition sql_insert_mascota ::
  "string \<Rightarrow> string \<Rightarrow> string \<Rightarrow> int \<Rightarrow> int option \<Rightarrow> database \<Rightarrow> sqlite_error + int \<times> database" where
  "sql_insert_mascota n e r a pid db =
     (case new_rowid (seq_mascotas db) (map m_id (mascotas db)) of
        Inl err \<Rightarrow> Inl err
      | Inr i \<Rightarrow>
          if foreign_keys db \<and> pid \<noteq> None \<and> pid \<notin> Some ` set (map p_id (propietarios db))
          then Inl IntegrityError
          else Inr (i, db\<lparr>mascotas := mascotas db @
                            [\<lparr>m_id = i, m_nombre = n, m_especie = e, m_raza = r, m_edad = a,
                              m_id_propietario = pid\<rparr>],
                          seq_mascotas := i\<rparr>))"

text \<open>
  \<^verbatim>\<open>SELECT m.id, m.nombre, m.especie, m.raza, m.edad, m.id_propietario, p.nombre
  FROM mascotas m JOIN propietarios p ON m.id_propietario = p.id\<close>, and the same with
  \<^verbatim>\<open>WHERE m.id = ?\<close>. A result row is the pet's row with the owner's name.
\<close>

definition sql_select_mascotas_join :: "database \<Rightarrow> sqlite_error + (mascota_row \<times> string) list" where
  "sql_select_mascotas_join db =
     Inr (concat (map (\<lambda>m. map (\<lambda>p. (m, p_nombre p))
                               (filter (\<lambda>p. m_id_propietario m = Some (p_id p)) (propietarios db)))
                      (mascotas db)))"

definition sql_select_mascotas_join_id ::
  "int option \<Rightarrow> database \<Rightarrow> sqlite_error + (mascota_row \<times> string) list" where
  "sql_select_mascotas_join_id i db =
     Inr (concat (map (\<lambda>m. map (\<lambda>p. (m, p_nombre p))
                               (filter (\<lambda>p. m_id_propietario m = Some (p_id p)) (propietarios db)))
                      (filter (\<lambda>m. Some (m_id m) = i) (mascotas db))))"

text \<open>\<^verbatim>\<open>UPDATE mascotas SET ... WHERE id = ?\<close>, over the fields of a pet.\<close>

datatype mascota_item =
  Nombre_m string | Especie_m string | Raza_m string | Edad_m int | Id_propietario_m "int option"

fun set_mascota :: "mascota_row \<Rightarrow> mascota_item \<Rightarrow> mascota_row" where
  "set_mascota r (Nombre_m v) = r\<lparr>m_nombre := v\<rparr>"
| "set_mascota r (Especie_m v) = r\<lparr>m_especie := v\<rparr>"
| "set_mascota r (Raza_m v) = r\<lparr>m_raza := v\<rparr>"
| "set_mascota r (Edad_m v) = r\<lparr>m_edad := v\<rparr>"
| "set_mascota r (Id_propietario_m v) = r\<lparr>m_id_propietario := v\<rparr>"

definition set_mascotas :: "mascota_item list \<Rightarrow> mascota_row \<Rightarrow> mascota_row" where
  "set_mascotas new_data r = fold (\<lambda>x r. set_mascota r x) new_data r"

text \<open>Those of \<^verbatim>\<open>new_data.values()\<close> that are an \<^verbatim>\<open>int\<close> or \<^verbatim>\<open>None\<close>, in their order.\<close>

fun value_m :: "mascota_item \<Rightarrow> int option list" where
  "value_m (Edad_m v) = [Some v]"
| "value_m (Id_propietario_m v) = [v]"
| "value_m x = []"

definition values_m :: "mascota_item list \<Rightarrow> int option list" where
  "values_m new_data = concat (map value_m new_data)"

definition sql_update_mascotas ::
  "mascota_item list \<Rightarrow> int option \<Rightarrow> database \<Rightarrow> sqlite_error + nat \<times> database" where
  "sql_update_mascotas new_data i db =
     (let hit = filter (\<lambda>r. Some (m_id r) = i) (mascotas db)
      in if foreign_keys db \<and>
            (\<exists>r \<in> set hit. m_id_propietario (set_mascotas new_data r) \<noteq> None \<and>
               m_id_propietario (set_mascotas new_data r) \<notin> Some ` set (map p_id (propietarios db)))
         then Inl IntegrityError
         else Inr (length hit,
                   db\<lparr>mascotas :=
                        map (\<lambda>r. if Some (m_id r) = i then set_mascotas new_data r else r)
                            (mascotas db)\<rparr>))"

text \<open>\<^verbatim>\<open>DELETE FROM mascotas WHERE id = ?\<close>; the visits of a deleted pet go with it
  only with \<open>foreign_keys\<close> on.\<close>

definition sql_delete_mascotas :: "int option \<Rightarrow> database \<Rightarrow> sqlite_error + nat \<times> database" where
  "sql_delete_mascotas i db =
     (let hit = filter (\<lambda>r. Some (m_id r) = i) (mascotas db);
          db1 = db\<lparr>mascotas := filter (\<lambda>r. Some (m_id r) \<noteq> i) (mascotas db)\<rparr>
      in if foreign_keys db \<and> hit \<noteq> [] then
           Inr (length hit, db1\<lparr>consultas := filter (\<lambda>c. c_id_mascota c \<noteq> i) (consultas db)\<rparr>)
         else Inr (length hit, db1))"

text \<open>\<^verbatim>\<open>INSERT INTO consultas (fecha, motivo, diagnostico, id_mascota) VALUES (?, ?, ?, ?)\<close>\<close>

definition sql_insert_consulta ::
  "string \<Rightarrow> string \<Rightarrow> string \<Rightarrow> int option \<Rightarrow> database \<Rightarrow> sqlite_error + int \<times> database" where
  "sql_insert_consulta f mo dg mid db =
     (case new_rowid (seq_consultas db) (map c_id (consultas db)) of
        Inl err \<Rightarrow> Inl err
      | Inr i \<Rightarrow>
          if foreign_keys db \<and> mid \<noteq> None \<and> mid \<notin> Some ` set (map m_id (mascotas db))
          then Inl IntegrityError
          else Inr (i, db\<lparr>consultas := consultas db @
                            [\<lparr>c_id = i, c_fecha = f, c_motivo = mo, c_diagnostico = dg,
                              c_id_mascota = mid\<rparr>],
                          seq_consultas := i\<rparr>))"

text \<open>
  \<^verbatim>\<open>SELECT c.id, c.fecha, c.motivo, c.diagnostico, c.id_mascota, m.nombre
  FROM consultas c JOIN mascotas m ON c.id_mascota = m.id\<close>, with
  \<^verbatim>\<open>WHERE c.id_mascota = ? ORDER BY c.fecha DESC\<close> or with \<^verbatim>\<open>WHERE c.id = ?\<close>.
  \<^verbatim>\<open>fecha\<close> is a TEXT column: the order is the order of the texts, byte by byte, the
  greatest first, and rows of equal text stay in the order of the scan, which is the
  order of their ids (\<open>sort_key\<close> is stable, so the ascending sort of the reversed scan is
  the reverse of that order).
\<close>

definition join_consultas :: "consulta_row list \<Rightarrow> database \<Rightarrow> (consulta_row \<times> string) list" where
  "join_consultas cs db =
     concat (map (\<lambda>c. map (\<lambda>m. (c, m_nombre m))
                          (filter (\<lambda>m. c_id_mascota c = Some (m_id m)) (mascotas db)))
                 cs)"

definition sql_select_consultas_join_mascota ::
  "int option \<Rightarrow> database \<Rightarrow> sqlite_error + (consulta_row \<times> string) list" where
  "sql_select_consultas_join_mascota mid db =
     Inr (rev (sort_key (\<lambda>(c, n). c_fecha c)
                 (rev (join_consultas (filter (\<lambda>c. c_id_mascota c = mid) (consultas db)) db))))"

definition sql_select_consultas_join_id ::
  "int option \<Rightarrow> database \<Rightarrow> sqlite_error + (consulta_row \<times> string) list" where
  "sql_select_consultas_join_id i db =
     Inr (join_consultas (filter (\<lambda>c. Some (c_id c) = i) (consultas db)) db)"

text \<open>
  \<^verbatim>\<open>UPDATE consultas SET ... WHERE id = ?\<close>, over the fields of a visit. The value of
  \<^verbatim>\<open>fecha\<close> is a \<^verbatim>\<open>date\<close> or a \<^verbatim>\<open>str\<close>; a \<^verbatim>\<open>date\<close> that reaches the statement is bound as
  its \<^verbatim>\<open>isoformat()\<close> (\<^verbatim>\<open>update_consulta\<close> lets none through: it replaces a \<^verbatim>\<open>date\<close> by
  its \<^verbatim>\<open>strftime\<close> before).
\<close>

datatype fecha_arg = Fecha_date date | Fecha_str string

datatype consulta_item =
  Fecha_c fecha_arg | Motivo_c string | Diagnostico_c string | Id_mascota_c "int option"

fun set_consulta :: "consulta_row \<Rightarrow> consulta_item \<Rightarrow> consulta_row" where
  "set_consulta r (Fecha_c (Fecha_str v)) = r\<lparr>c_fecha := v\<rparr>"
| "set_consulta r (Fecha_c (Fecha_date d)) = r\<lparr>c_fecha := isoformat d\<rparr>"
| "set_consulta r (Motivo_c v) = r\<lparr>c_motivo := v\<rparr>"
| "set_consulta r (Diagnostico_c v) = r\<lparr>c_diagnostico := v\<rparr>"
| "set_consulta r (Id_mascota_c v) = r\<lparr>c_id_mascota := v\<rparr>"

definition set_consultas :: "consulta_item list \<Rightarrow> consulta_row \<Rightarrow> consulta_row" where
  "set_consultas new_data r = fold (\<lambda>x r. set_consulta r x) new_data r"

fun value_c :: "consulta_item \<Rightarrow> int option list" where
  "value_c (Id_mascota_c v) = [v]"
| "value_c x = []"

definition values_c :: "consulta_item list \<Rightarrow> int option list" where
  "values_c new_data = concat (map value_c new_data)"

definition sql_update_consultas ::
  "consulta_item list \<Rightarrow> int option \<Rightarrow> database \<Rightarrow> sqlite_error + nat \<times> database" where
  "sql_update_consultas new_data i db =
     (let hit = filter (\<lambda>r. Some (c_id r) = i) (consultas db)
      in if foreign_keys db \<and>
            (\<exists>r \<in> set hit. c_id_mascota (set_consultas new_data r) \<noteq> None \<and>
               c_id_mascota (set_consultas new_data r) \<notin> Some ` set (map m_id (mascotas db)))
         then Inl IntegrityError
         else Inr (length hit,
                   db\<lparr>consultas :=
                        map (\<lambda>r. if Some (c_id r) = i then set_consultas new_data r else r)
                            (consultas db)\<rparr>))"

text \<open>\<^verbatim>\<open>DELETE FROM consultas WHERE id = ?\<close>\<close>

definition sql_delete_consultas :: "int option \<Rightarrow> database \<Rightarrow> sqlite_error + nat \<times> database" where
  "sql_delete_consultas i db =
     Inr (length (filter (\<lambda>r. Some (c_id r) = i) (consultas db)),
          db\<lparr>consultas := filter (\<lambda>r. Some (c_id r) \<noteq> i) (consultas db)\<rparr>)"

section \<open>The record classes\<close>

text \<open>
  \<^verbatim>\<open>Propietario\<close>, \<^verbatim>\<open>Mascota\<close> and \<^verbatim>\<open>Consulta\<close>: an object has no id before the store
  assigns one, and the display name of its parent only when a query read it.
\<close>

record Propietario =
  prop_id :: "int option"
  prop_nombre :: string
  prop_telefono :: string
  prop_direccion :: string

record Mascota =
  masc_id :: "int option"
  masc_nombre :: string
  masc_especie :: string
  masc_raza :: string
  masc_edad :: int
  masc_propietario_id :: "int option"
  masc_propietario_nombre :: "string option"

record Consulta =
  cons_id :: "int option"
  cons_fecha :: date
  cons_motivo :: string
  cons_diagnostico :: string
  cons_mascota_id :: "int option"
  cons_mascota_nombre :: "string option"

text \<open>
  \<^verbatim>\<open>Consulta.__init__\<close> takes the date as a \<^verbatim>\<open>date\<close> or as a text in the form
  YYYY-MM-DD, and raises \<^verbatim>\<open>ValueError\<close> for a text \<^verbatim>\<open>strptime\<close> rejects.
\<close>

definition Consulta_init ::
  "fecha_arg \<Rightarrow> string \<Rightarrow> string \<Rightarrow> int option \<Rightarrow> int option \<Rightarrow> string option
   \<Rightarrow> pyexn + Consulta" where
  "Consulta_init fecha motivo diagnostico mascota_id ident mascota_nombre =
     (case fecha of
        Fecha_date d \<Rightarrow>
          Inr \<lparr>cons_id = ident, cons_fecha = d, cons_motivo = motivo,
               cons_diagnostico = diagnostico, cons_mascota_id = mascota_id,
               cons_mascota_nombre = mascota_nombre\<rparr>
      | Fecha_str s \<Rightarrow>
          (case strptime_Ymd s of
             None \<Rightarrow> Inl ValueError
           | Some d \<Rightarrow>
               Inr \<lparr>cons_id = ident, cons_fecha = d, cons_motivo = motivo,
                    cons_diagnostico = diagnostico, cons_mascota_id = mascota_id,
                    cons_mascota_nombre = mascota_nombre\<rparr>))"

text \<open>The objects the store builds from result rows.\<close>

definition Propietario_of_row :: "propietario_row \<Rightarrow> Propietario" where
  "Propietario_of_row row =
     \<lparr>prop_id = Some (p_id row), prop_nombre = p_nombre row,
      prop_telefono = p_telefono row, prop_direccion = p_direccion row\<rparr>"

definition Mascota_of_row :: "mascota_row \<times> string \<Rightarrow> Mascota" where
  "Mascota_of_row row =
     \<lparr>masc_id = Some (m_id (fst row)), masc_nombre = m_nombre (fst row),
      masc_especie = m_especie (fst row), masc_raza = m_raza (fst row),
      masc_edad = m_edad (fst row), masc_propietario_id = m_id_propietario (fst row),
      masc_propietario_nombre = Some (snd row)\<rparr>"

definition Consulta_of_row :: "consulta_row \<times> string \<Rightarrow> pyexn + Consulta" where
  "Consulta_of_row row =
     Consulta_init (Fecha_str (c_fecha (fst row))) (c_motivo (fst row)) (c_diagnostico (fst row))
       (c_id_mascota (fst row)) (Some (c_id (fst row))) (Some (snd row))"

text \<open>\<^verbatim>\<open>[Consulta(...) for row in rows]\<close>: the first row whose date does not parse
  raises.\<close>

fun Consultas_of_rows :: "(consulta_row \<times> string) list \<Rightarrow> pyexn + Consulta list" where
  "Consultas_of_rows [] = Inr []"
| "Consultas_of_rows (row # rows) =
     (case Consulta_of_row row of
        Inl e \<Rightarrow> Inl e
      | Inr c \<Rightarrow> (case Consultas_of_rows rows of Inl e \<Rightarrow> Inl e | Inr cs \<Rightarrow> Inr (c # cs)))"

section \<open>The store: \<^verbatim>\<open>DatabaseManager\<close>\<close>

text \<open>
  Each operation is the body of its \<^verbatim>\<open>try\<close> followed by the handlers: a value \<open>Inr v\<close>
  is returned, an exception \<open>Inl e\<close> leaves the operation. An operation that writes
  returns the state of the database with its result; one that only reads returns its
  result. The two handlers of \<^verbatim>\<open>insert_propietario\<close> differ in the log line only.
\<close>

subsection \<open>Owners\<close>

definition insert_propietario ::
  "fault option \<Rightarrow> Propietario \<Rightarrow> database \<Rightarrow> (pyexn + Propietario option) \<times> database" where
  "insert_propietario flt propietario db =
     (case execute flt True [] (sql_insert_propietario (prop_nombre propietario)
                          (prop_telefono propietario) (prop_direccion propietario) db) of
        Inl e \<Rightarrow> (except_sqlite3_Error e None, db)
      | Inr (lastrowid, db') \<Rightarrow>
          (case commit flt of
             Inl e \<Rightarrow> (except_sqlite3_Error e None, db')
           | Inr _ \<Rightarrow> (Inr (Some (propietario\<lparr>prop_id := Some lastrowid\<rparr>)), db')))"

definition get_propietario_by_nombre ::
  "fault option \<Rightarrow> string \<Rightarrow> database \<Rightarrow> pyexn + Propietario option" where
  "get_propietario_by_nombre flt nombre db =
     (case execute flt True [] (sql_select_propietarios_like nombre db) of
        Inl e \<Rightarrow> except_sqlite3_Error e None
      | Inr rows \<Rightarrow>
          (case fetchone flt rows of
             Inl e \<Rightarrow> except_sqlite3_Error e None
           | Inr None \<Rightarrow> Inr None
           | Inr (Some row) \<Rightarrow> Inr (Some (Propietario_of_row row))))"

definition get_propietario_by_id ::
  "fault option \<Rightarrow> int option \<Rightarrow> database \<Rightarrow> pyexn + Propietario option" where
  "get_propietario_by_id flt propietario_id db =
     (case execute flt True [propietario_id] (sql_select_propietarios_id propietario_id db) of
        Inl e \<Rightarrow> except_sqlite3_Error e None
      | Inr rows \<Rightarrow>
          (case fetchone flt rows of
             Inl e \<Rightarrow> except_sqlite3_Error e None
           | Inr None \<Rightarrow> Inr None
           | Inr (Some row) \<Rightarrow> Inr (Some (Propietario_of_row row))))"

definition get_all_propietarios :: "fault option \<Rightarrow> database \<Rightarrow> pyexn + Propietario list" where
  "get_all_propietarios flt db =
     (case execute flt True [] (sql_select_propietarios db) of
        Inl e \<Rightarrow> except_sqlite3_Error e []
      | Inr rows \<Rightarrow>
          (case fetchall flt rows of
             Inl e \<Rightarrow> except_sqlite3_Error e []
           | Inr rows' \<Rightarrow> Inr (map Propietario_of_row rows')))"

definition update_propietario ::
  "fault option \<Rightarrow> int option \<Rightarrow> propietario_item list \<Rightarrow> database
   \<Rightarrow> (pyexn + bool) \<times> database" where
  "update_propietario flt propietario_id new_data db =
     (case execute flt (new_data \<noteq> []) [propietario_id]
             (sql_update_propietarios new_data propietario_id db) of
        Inl e \<Rightarrow> (except_sqlite3_Error e False, db)
      | Inr (rowcount, db') \<Rightarrow>
          (case commit flt of
             Inl e \<Rightarrow> (except_sqlite3_Error e False, db')
           | Inr _ \<Rightarrow> (Inr (rowcount > 0), db')))"

definition delete_propietario ::
  "fault option \<Rightarrow> int option \<Rightarrow> database \<Rightarrow> (pyexn + bool) \<times> database" where
  "delete_propietario flt propietario_id db =
     (case execute flt True [propietario_id] (sql_delete_propietarios propietario_id db) of
        Inl e \<Rightarrow> (except_sqlite3_Error e False, db)
      | Inr (rowcount, db') \<Rightarrow>
          (case commit flt of
             Inl e \<Rightarrow> (except_sqlite3_Error e False, db')
           | Inr _ \<Rightarrow> (Inr (rowcount > 0), db')))"

subsection \<open>Pets\<close>

definition insert_mascota ::
  "fault option \<Rightarrow> Mascota \<Rightarrow> database \<Rightarrow> (pyexn + Mascota option) \<times> database" where
  "insert_mascota flt mascota db =
     (case execute flt True [Some (masc_edad mascota), masc_propietario_id mascota]
             (sql_insert_mascota (masc_nombre mascota) (masc_especie mascota)
                (masc_raza mascota) (masc_edad mascota) (masc_propietario_id mascota) db) of
        Inl e \<Rightarrow> (except_sqlite3_Error e None, db)
      | Inr (lastrowid, db') \<Rightarrow>
          (case commit flt of
             Inl e \<Rightarrow> (except_sqlite3_Error e None, db')
           | Inr _ \<Rightarrow> (Inr (Some (mascota\<lparr>masc_id := Some lastrowid\<rparr>)), db')))"

definition get_all_mascotas :: "fault option \<Rightarrow> database \<Rightarrow> pyexn + Mascota list" where
  "get_all_mascotas flt db =
     (case execute flt True [] (sql_select_mascotas_join db) of
        Inl e \<Rightarrow> except_sqlite3_Error e []
      | Inr rows \<Rightarrow>
          (case fetchall flt rows of
             Inl e \<Rightarrow> except_sqlite3_Error e []
           | Inr rows' \<Rightarrow> Inr (map Mascota_of_row rows')))"

definition get_mascota_by_id ::
  "fault option \<Rightarrow> int option \<Rightarrow> database \<Rightarrow> pyexn + Mascota option" where
  "get_mascota_by_id flt mascota_id db =
     (case execute flt True [mascota_id] (sql_select_mascotas_join_id mascota_id db) of
        Inl e \<Rightarrow> except_sqlite3_Error e None
      | Inr rows \<Rightarrow>
          (case fetchone flt rows of
             Inl e \<Rightarrow> except_sqlite3_Error e None
           | Inr None \<Rightarrow> Inr None
           | Inr (Some row) \<Rightarrow> Inr (Some (Mascota_of_row row))))"

definition update_mascota ::
  "fault option \<Rightarrow> int option \<Rightarrow> mascota_item list \<Rightarrow> database
   \<Rightarrow> (pyexn + bool) \<times> database" where
  "update_mascota flt mascota_id new_data db =
     (case execute flt (new_data \<noteq> []) (values_m new_data @ [mascota_id])
             (sql_update_mascotas new_data mascota_id db) of
        Inl e \<Rightarrow> (except_sqlite3_Error e False, db)
      | Inr (rowcount, db') \<Rightarrow>
          (case commit flt of
             Inl e \<Rightarrow> (except_sqlite3_Error e False, db')
           | Inr _ \<Rightarrow> (Inr (rowcount > 0), db')))"

definition delete_mascota ::
  "fault option \<Rightarrow> int option \<Rightarrow> database \<Rightarrow> (pyexn + bool) \<times> database" where
  "delete_mascota flt mascota_id db =
     (case execute flt True [mascota_id] (sql_delete_mascotas mascota_id db) of
        Inl e \<Rightarrow> (except_sqlite3_Error e False, db)
      | Inr (rowcount, db') \<Rightarrow>
          (case commit flt of
             Inl e \<Rightarrow> (except_sqlite3_Error e False, db')
           | Inr _ \<Rightarrow> (Inr (rowcount > 0), db')))"

subsection \<open>Visits\<close>

definition insert_consulta ::
  "fault option \<Rightarrow> Consulta \<Rightarrow> database \<Rightarrow> (pyexn + Consulta option) \<times> database" where
  "insert_consulta flt consulta db =
     (case execute flt True [cons_mascota_id consulta]
             (sql_insert_consulta (strftime_Ymd (cons_fecha consulta))
                (cons_motivo consulta) (cons_diagnostico consulta)
                (cons_mascota_id consulta) db) of
        Inl e \<Rightarrow> (except_sqlite3_Error e None, db)
      | Inr (lastrowid, db') \<Rightarrow>
          (case commit flt of
             Inl e \<Rightarrow> (except_sqlite3_Error e None, db')
           | Inr _ \<Rightarrow> (Inr (Some (consulta\<lparr>cons_id := Some lastrowid\<rparr>)), db')))"

definition get_consultas_by_mascota_id ::
  "fault option \<Rightarrow> int option \<Rightarrow> database \<Rightarrow> pyexn + Consulta list" where
  "get_consultas_by_mascota_id flt mascota_id db =
     (case execute flt True [mascota_id] (sql_select_consultas_join_mascota mascota_id db) of
        Inl e \<Rightarrow> except_sqlite3_Error e []
      | Inr rows \<Rightarrow>
          (case fetchall flt rows of
             Inl e \<Rightarrow> except_sqlite3_Error e []
           | Inr rows' \<Rightarrow>
               (case Consultas_of_rows rows' of
                  Inl e \<Rightarrow> except_sqlite3_Error e []
                | Inr cs \<Rightarrow> Inr cs)))"

definition get_consulta_by_id ::
  "fault option \<Rightarrow> int option \<Rightarrow> database \<Rightarrow> pyexn + Consulta option" where
  "get_consulta_by_id flt consulta_id db =
     (case execute flt True [consulta_id] (sql_select_consultas_join_id consulta_id db) of
        Inl e \<Rightarrow> except_sqlite3_Error e None
      | Inr rows \<Rightarrow>
          (case fetchone flt rows of
             Inl e \<Rightarrow> except_sqlite3_Error e None
           | Inr None \<Rightarrow> Inr None
           | Inr (Some row) \<Rightarrow>
               (case Consulta_of_row row of
                  Inl e \<Rightarrow> except_sqlite3_Error e None
                | Inr c \<Rightarrow> Inr (Some c))))"

text \<open>\<^verbatim>\<open>update_consulta\<close> first replaces a \<^verbatim>\<open>date\<close> under the key \<^verbatim>\<open>fecha\<close> by its
  \<^verbatim>\<open>strftime("%Y-%m-%d")\<close>; a text under that key is stored as it is.\<close>

fun fecha_strftime :: "consulta_item \<Rightarrow> consulta_item" where
  "fecha_strftime (Fecha_c (Fecha_date d)) = Fecha_c (Fecha_str (strftime_Ymd d))"
| "fecha_strftime x = x"

definition update_consulta ::
  "fault option \<Rightarrow> int option \<Rightarrow> consulta_item list \<Rightarrow> database
   \<Rightarrow> (pyexn + bool) \<times> database" where
  "update_consulta flt consulta_id new_data db =
     (case execute flt (new_data \<noteq> []) (values_c new_data @ [consulta_id])
             (sql_update_consultas (map fecha_strftime new_data) consulta_id db) of
        Inl e \<Rightarrow> (except_sqlite3_Error e False, db)
      | Inr (rowcount, db') \<Rightarrow>
          (case commit flt of
             Inl e \<Rightarrow> (except_sqlite3_Error e False, db')
           | Inr _ \<Rightarrow> (Inr (rowcount > 0), db')))"

definition delete_consulta ::
  "fault option \<Rightarrow> int option \<Rightarrow> database \<Rightarrow> (pyexn + bool) \<times> database" where
  "delete_consulta flt consulta_id db =
     (case execute flt True [consulta_id] (sql_delete_consultas consulta_id db) of
        Inl e \<Rightarrow> (except_sqlite3_Error e False, db)
      | Inr (rowcount, db') \<Rightarrow>
          (case commit flt of
             Inl e \<Rightarrow> (except_sqlite3_Error e False, db')
           | Inr _ \<Rightarrow> (Inr (rowcount > 0), db')))"

section \<open>The domain service: \<^verbatim>\<open>SistemaVeterinaria\<close>\<close>

text \<open>
  A workflow reads its inputs from the console and calls the store. The model takes what
  the console readers return: the line of an \<^verbatim>\<open>input()\<close>, the integer of
  \<^verbatim>\<open>UIUtils.get_int_input\<close>, the date of \<^verbatim>\<open>UIUtils.get_date_input\<close> and the answer of
  \<^verbatim>\<open>UIUtils.confirm_action\<close>. \<open>flt k\<close> is the fault, if any, of the workflow's store
  call number \<open>k\<close>, counted in the order of the program text. The result names the
  message the workflow ends with.
\<close>

datatype resultado =
  Registrado
| Cancelado
| NoEncontrado
| NoSePudo
| NombreEnUso "int option"
| Actualizado
| SinDatos
| Eliminado
| Listado

text \<open>\<^verbatim>\<open>_get_propietario_or_create\<close>\<close>

definition get_propietario_or_create ::
  "(nat \<Rightarrow> fault option) \<Rightarrow> string \<Rightarrow> bool \<Rightarrow> string \<Rightarrow> string \<Rightarrow> string \<Rightarrow> database
   \<Rightarrow> (pyexn + Propietario option) \<times> database" where
  "get_propietario_or_create flt owner_name registrar nombre_in telefono direccion db =
     (case get_propietario_by_nombre (flt 0) owner_name db of
        Inl e \<Rightarrow> (Inl e, db)
      | Inr (Some propietario) \<Rightarrow> (Inr (Some propietario), db)
      | Inr None \<Rightarrow>
          if registrar then
            (case get_propietario_by_nombre (flt 1) (strip nombre_in) db of
               Inl e \<Rightarrow> (Inl e, db)
             | Inr (Some propietario_existente) \<Rightarrow> (Inr (Some propietario_existente), db)
             | Inr None \<Rightarrow>
                 insert_propietario (flt 2)
                   \<lparr>prop_id = None, prop_nombre = strip nombre_in, prop_telefono = telefono,
                    prop_direccion = direccion\<rparr> db)
          else (Inr None, db))"

text \<open>
  The age of \<^verbatim>\<open>registrar_mascota\<close>: \<^verbatim>\<open>get_int_input\<close> is asked again while the age is
  negative. The list holds the integers it returns, in order; when they run out the
  console is at its end and \<^verbatim>\<open>input()\<close> raises.
\<close>

fun leer_edad :: "int list \<Rightarrow> pyexn + int" where
  "leer_edad [] = Inl EOFError"
| "leer_edad (edad # mas) = (if edad < 0 then leer_edad mas else Inr edad)"

definition registrar_mascota ::
  "(nat \<Rightarrow> fault option) \<Rightarrow> string \<Rightarrow> string \<Rightarrow> string \<Rightarrow> int list \<Rightarrow> string \<Rightarrow> bool
   \<Rightarrow> string \<Rightarrow> string \<Rightarrow> string \<Rightarrow> database \<Rightarrow> (pyexn + resultado) \<times> database" where
  "registrar_mascota flt nombre_mascota especie_mascota raza_mascota edades nombre_propietario
     registrar nombre_nuevo telefono_nuevo direccion_nuevo db =
     (case leer_edad edades of
        Inl e \<Rightarrow> (Inl e, db)
      | Inr edad_mascota \<Rightarrow>
          (case get_propietario_or_create flt (strip nombre_propietario) registrar
                  nombre_nuevo telefono_nuevo direccion_nuevo db of
             (Inl e, db1) \<Rightarrow> (Inl e, db1)
           | (Inr None, db1) \<Rightarrow> (Inr Cancelado, db1)
           | (Inr (Some propietario), db1) \<Rightarrow>
               (case insert_mascota (flt 3)
                       \<lparr>masc_id = None, masc_nombre = nombre_mascota,
                        masc_especie = especie_mascota, masc_raza = raza_mascota,
                        masc_edad = edad_mascota, masc_propietario_id = prop_id propietario,
                        masc_propietario_nombre = None\<rparr> db1 of
                  (Inl e, db2) \<Rightarrow> (Inl e, db2)
                | (Inr None, db2) \<Rightarrow> (Inr NoSePudo, db2)
                | (Inr (Some mascota_registrada), db2) \<Rightarrow> (Inr Registrado, db2))))"

definition registrar_consulta ::
  "(nat \<Rightarrow> fault option) \<Rightarrow> int \<Rightarrow> date \<Rightarrow> string \<Rightarrow> string \<Rightarrow> database
   \<Rightarrow> (pyexn + resultado) \<times> database" where
  "registrar_consulta flt mascota_id fecha motivo diagnostico db =
     (case get_mascota_by_id (flt 0) (Some mascota_id) db of
        Inl e \<Rightarrow> (Inl e, db)
      | Inr None \<Rightarrow> (Inr NoEncontrado, db)
      | Inr (Some mascota) \<Rightarrow>
          (case Consulta_init (Fecha_date fecha) motivo diagnostico (masc_id mascota) None None of
             Inl e \<Rightarrow> (Inl e, db)
           | Inr consulta \<Rightarrow>
               (case insert_consulta (flt 1) consulta db of
                  (Inl e, db1) \<Rightarrow> (Inl e, db1)
                | (Inr None, db1) \<Rightarrow> (Inr NoSePudo, db1)
                | (Inr (Some consulta_registrada), db1) \<Rightarrow> (Inr Registrado, db1))))"

definition listar_propietarios ::
  "(nat \<Rightarrow> fault option) \<Rightarrow> database \<Rightarrow> (pyexn + resultado) \<times> database" where
  "listar_propietarios flt db =
     (case get_all_propietarios (flt 0) db of
        Inl e \<Rightarrow> (Inl e, db)
      | Inr lista \<Rightarrow> (Inr Listado, db))"

definition listar_mascotas ::
  "(nat \<Rightarrow> fault option) \<Rightarrow> database \<Rightarrow> (pyexn + resultado) \<times> database" where
  "listar_mascotas flt db =
     (case get_all_mascotas (flt 0) db of
        Inl e \<Rightarrow> (Inl e, db)
      | Inr lista \<Rightarrow> (Inr Listado, db))"

definition historia_clinica ::
  "(nat \<Rightarrow> fault option) \<Rightarrow> int \<Rightarrow> database \<Rightarrow> (pyexn + resultado) \<times> database" where
  "historia_clinica flt mascota_id db =
     (case get_mascota_by_id (flt 0) (Some mascota_id) db of
        Inl e \<Rightarrow> (Inl e, db)
      | Inr None \<Rightarrow> (Inr NoEncontrado, db)
      | Inr (Some mascota) \<Rightarrow>
          (case get_consultas_by_mascota_id (flt 1) (masc_id mascota) db of
             Inl e \<Rightarrow> (Inl e, db)
           | Inr lista \<Rightarrow> (Inr Listado, db)))"

text \<open>
  \<^verbatim>\<open>actualizar_propietario\<close>. A new name is looked up first; when the owner found is not
  the one being updated, the workflow reports the name as taken and returns before it
  reads the other fields.
\<close>

definition nuevo_item :: "string \<Rightarrow> (string \<Rightarrow> 'a) \<Rightarrow> 'a list" where
  "nuevo_item linea k = (if strip linea \<noteq> [] then [k (strip linea)] else [])"

definition actualizar_propietario ::
  "(nat \<Rightarrow> fault option) \<Rightarrow> int \<Rightarrow> string \<Rightarrow> string \<Rightarrow> string \<Rightarrow> database
   \<Rightarrow> (pyexn + resultado) \<times> database" where
  "actualizar_propietario flt propietario_id nombre telefono direccion db =
     (case get_propietario_by_id (flt 0) (Some propietario_id) db of
        Inl e \<Rightarrow> (Inl e, db)
      | Inr None \<Rightarrow> (Inr NoEncontrado, db)
      | Inr (Some propietario) \<Rightarrow>
          (case (if strip nombre \<noteq> []
                 then get_propietario_by_nombre (flt 1) (strip nombre) db else Inr None) of
             Inl e \<Rightarrow> (Inl e, db)
           | Inr existente \<Rightarrow>
               if strip nombre \<noteq> [] \<and> existente \<noteq> None \<and>
                  Option.bind existente prop_id \<noteq> prop_id propietario
               then (Inr (NombreEnUso (Option.bind existente prop_id)), db)
               else
                 let new_data = nuevo_item nombre Nombre_p @ nuevo_item telefono Telefono_p
                                @ nuevo_item direccion Direccion_p
                 in if new_data \<noteq> [] then
                      (case update_propietario (flt 2) (prop_id propietario) new_data db of
                         (Inl e, db1) \<Rightarrow> (Inl e, db1)
                       | (Inr ok, db1) \<Rightarrow> (Inr (if ok then Actualizado else NoSePudo), db1))
                    else (Inr SinDatos, db)))"

text \<open>
  \<^verbatim>\<open>actualizar_mascota\<close>. The line of the new age, after \<^verbatim>\<open>strip()\<close>, is empty, or a
  text \<^verbatim>\<open>int()\<close> rejects, or a text it reads as an integer; a negative integer is turned
  into the same \<^verbatim>\<open>ValueError\<close> as a rejected text, and the age is then left out.
\<close>

datatype edad_str = Edad_vacia | Edad_no_entera | Edad_entera int

fun edad_item :: "edad_str \<Rightarrow> mascota_item list" where
  "edad_item Edad_vacia = []"
| "edad_item Edad_no_entera = []"
| "edad_item (Edad_entera edad) = (if edad < 0 then [] else [Edad_m edad])"

definition actualizar_mascota ::
  "(nat \<Rightarrow> fault option) \<Rightarrow> int \<Rightarrow> string \<Rightarrow> string \<Rightarrow> string \<Rightarrow> edad_str \<Rightarrow> bool \<Rightarrow> string
   \<Rightarrow> database \<Rightarrow> (pyexn + resultado) \<times> database" where
  "actualizar_mascota flt mascota_id nombre especie raza edad_str cambiar
     nombre_nuevo_propietario db =
     (case get_mascota_by_id (flt 0) (Some mascota_id) db of
        Inl e \<Rightarrow> (Inl e, db)
      | Inr None \<Rightarrow> (Inr NoEncontrado, db)
      | Inr (Some mascota) \<Rightarrow>
          (case (if cambiar
                 then get_propietario_by_nombre (flt 1) (strip nombre_nuevo_propietario) db
                 else Inr None) of
             Inl e \<Rightarrow> (Inl e, db)
           | Inr nuevo_propietario \<Rightarrow>
               let new_data = nuevo_item nombre Nombre_m @ nuevo_item especie Especie_m
                              @ nuevo_item raza Raza_m @ edad_item edad_str
                              @ (case nuevo_propietario of
                                   None \<Rightarrow> []
                                 | Some p \<Rightarrow> [Id_propietario_m (prop_id p)])
               in if new_data \<noteq> [] then
                    (case update_mascota (flt 2) (masc_id mascota) new_data db of
                       (Inl e, db1) \<Rightarrow> (Inl e, db1)
                     | (Inr ok, db1) \<Rightarrow> (Inr (if ok then Actualizado else NoSePudo), db1))
                  else (Inr SinDatos, db)))"

text \<open>
  \<^verbatim>\<open>actualizar_consulta\<close>. The line of the new date, after \<^verbatim>\<open>strip()\<close>, is empty, or a
  text \<^verbatim>\<open>strptime(..., "%d-%m-%Y")\<close> rejects, or a text it reads as a date.
\<close>

datatype fecha_str = Fecha_vacia | Fecha_no_valida | Fecha_valida date

fun fecha_item :: "fecha_str \<Rightarrow> consulta_item list" where
  "fecha_item Fecha_vacia = []"
| "fecha_item Fecha_no_valida = []"
| "fecha_item (Fecha_valida d) = [Fecha_c (Fecha_date d)]"

definition actualizar_consulta ::
  "(nat \<Rightarrow> fault option) \<Rightarrow> int \<Rightarrow> fecha_str \<Rightarrow> string \<Rightarrow> string \<Rightarrow> database
   \<Rightarrow> (pyexn + resultado) \<times> database" where
  "actualizar_consulta flt consulta_id fecha_str motivo diagnostico db =
     (case get_consulta_by_id (flt 0) (Some consulta_id) db of
        Inl e \<Rightarrow> (Inl e, db)
      | Inr None \<Rightarrow> (Inr NoEncontrado, db)
      | Inr (Some consulta) \<Rightarrow>
          let new_data = fecha_item fecha_str @ nuevo_item motivo Motivo_c
                         @ nuevo_item diagnostico Diagnostico_c
          in if new_data \<noteq> [] then
               (case update_consulta (flt 1) (cons_id consulta) new_data db of
                  (Inl e, db1) \<Rightarrow> (Inl e, db1)
                | (Inr ok, db1) \<Rightarrow> (Inr (if ok then Actualizado else NoSePudo), db1))
             else (Inr SinDatos, db))"

definition eliminar_propietario ::
  "(nat \<Rightarrow> fault option) \<Rightarrow> int \<Rightarrow> bool \<Rightarrow> database \<Rightarrow> (pyexn + resultado) \<times> database" where
  "eliminar_propietario flt propietario_id seguro db =
     (case get_propietario_by_id (flt 0) (Some propietario_id) db of
        Inl e \<Rightarrow> (Inl e, db)
      | Inr None \<Rightarrow> (Inr NoEncontrado, db)
      | Inr (Some propietario) \<Rightarrow>
          if seguro then
            (case delete_propietario (flt 1) (prop_id propietario) db of
               (Inl e, db1) \<Rightarrow> (Inl e, db1)
             | (Inr ok, db1) \<Rightarrow> (Inr (if ok then Eliminado else NoSePudo), db1))
          else (Inr Cancelado, db))"

definition eliminar_mascota ::
  "(nat \<Rightarrow> fault option) \<Rightarrow> int \<Rightarrow> bool \<Rightarrow> database \<Rightarrow> (pyexn + resultado) \<times> database" where
  "eliminar_mascota flt mascota_id seguro db =
     (case get_mascota_by_id (flt 0) (Some mascota_id) db of
        Inl e \<Rightarrow> (Inl e, db)
      | Inr None \<Rightarrow> (Inr NoEncontrado, db)
      | Inr (Some mascota) \<Rightarrow>
          if seguro then
            (case delete_mascota (flt 1) (masc_id mascota) db of
               (Inl e, db1) \<Rightarrow> (Inl e, db1)
             | (Inr ok, db1) \<Rightarrow> (Inr (if ok then Eliminado else NoSePudo), db1))
          else (Inr Cancelado, db))"

definition eliminar_consulta ::
  "(nat \<Rightarrow> fault option) \<Rightarrow> int \<Rightarrow> bool \<Rightarrow> database \<Rightarrow> (pyexn + resultado) \<times> database" where
  "eliminar_consulta flt consulta_id seguro db =
     (case get_consulta_by_id (flt 0) (Some consulta_id) db of
        Inl e \<Rightarrow> (Inl e, db)
      | Inr None \<Rightarrow> (Inr NoEncontrado, db)
      | Inr (Some consulta) \<Rightarrow>
          if seguro then
            (case delete_consulta (flt 1) (cons_id consulta) db of
               (Inl e, db1) \<Rightarrow> (Inl e, db1)
             | (Inr ok, db1) \<Rightarrow> (Inr (if ok then Eliminado else NoSePudo), db1))
          else (Inr Cancelado, db))"

subsection \<open>The menu\<close>

text \<open>
  One turn of the loop of \<^verbatim>\<open>main\<close>: the option chosen, with the inputs its workflow
  reads. A date that comes from the console is a \<^verbatim>\<open>date\<close> object, hence a date of the
  calendar, of any year from 1 to 9999 (\<^verbatim>\<open>strptime\<close> with \<^verbatim>\<open>%d-%m-%Y\<close> reads the year
  from four digits, \<^verbatim>\<open>0999\<close> as 999). The states of the database the program can reach
  are those that a sequence of turns produces from the database of a
  \<^verbatim>\<open>DatabaseManager\<close> that came to be, whatever faults strike on the way. A turn that
  ends in an exception ends the loop and the program; the file stays, and the next run of
  the program goes on from it.
\<close>

datatype opcion =
  Opcion1 string string string "int list" string bool string string string
| Opcion2 int date string string
| Opcion3
| Opcion4
| Opcion5 int
| Opcion6 int string string string
| Opcion7 int string string string edad_str bool string
| Opcion8 int fecha_str string string
| Opcion9 int bool
| Opcion10 int bool
| Opcion11 int bool

fun entrada_valida :: "opcion \<Rightarrow> bool" where
  "entrada_valida (Opcion2 i fecha mo dg) = valid_date fecha"
| "entrada_valida (Opcion8 i (Fecha_valida fecha) mo dg) = valid_date fecha"
| "entrada_valida _ = True"

fun turno ::
  "(nat \<Rightarrow> fault option) \<Rightarrow> opcion \<Rightarrow> database \<Rightarrow> (pyexn + resultado) \<times> database" where
  "turno flt (Opcion1 n e r edades np reg nn tn dn) db =
     registrar_mascota flt n e r edades np reg nn tn dn db"
| "turno flt (Opcion2 i fecha mo dg) db = registrar_consulta flt i fecha mo dg db"
| "turno flt Opcion3 db = listar_propietarios flt db"
| "turno flt Opcion4 db = listar_mascotas flt db"
| "turno flt (Opcion5 i) db = historia_clinica flt i db"
| "turno flt (Opcion6 i n t d) db = actualizar_propietario flt i n t d db"
| "turno flt (Opcion7 i n e r edad cambiar np) db = actualizar_mascota flt i n e r edad cambiar np db"
| "turno flt (Opcion8 i fecha mo dg) db = actualizar_consulta flt i fecha mo dg db"
| "turno flt (Opcion9 i seguro) db = eliminar_propietario flt i seguro db"
| "turno flt (Opcion10 i seguro) db = eliminar_mascota flt i seguro db"
| "turno flt (Opcion11 i seguro) db = eliminar_consulta flt i seguro db"

inductive reachable :: "database \<Rightarrow> bool" where
  inicio: "DatabaseManager err = Inr db \<Longrightarrow> reachable db"
| paso: "reachable db \<Longrightarrow> entrada_valida op \<Longrightarrow> reachable (snd (turno flt op db))"

subsection \<open>Invariants of the stored rows\<close>

text \<open>No pet row has a negative age.\<close>

definition edades_no_negativas :: "database \<Rightarrow> bool" where
  "edades_no_negativas db \<longleftrightarrow> (\<forall>m \<in> set (mascotas db). 0 \<le> m_edad m)"

text \<open>
  Every visit row holds as its date a text that, if \<^verbatim>\<open>strptime\<close> reads it, is the text
  \<^verbatim>\<open>strftime\<close> writes for the date read.
\<close>

definition fecha_iso :: "string \<Rightarrow> bool" where
  "fecha_iso f \<longleftrightarrow> (case strptime_Ymd f of None \<Rightarrow> True | Some d \<Rightarrow> strftime_Ymd d = f)"

definition fechas_iso :: "database \<Rightarrow> bool" where
  "fechas_iso db \<longleftrightarrow> (\<forall>c \<in> set (consultas db). fecha_iso (c_fecha c))"

text \<open>
  The ids of the pet rows are distinct, at least 1 and at most the counter of the table,
  which is within 64 bits.
\<close>

definition ids_mascotas :: "database \<Rightarrow> bool" where
  "ids_mascotas db \<longleftrightarrow>
     0 \<le> seq_mascotas db \<and> seq_mascotas db \<le> 9223372036854775807 \<and>
     distinct (map m_id (mascotas db)) \<and>
     (\<forall>m \<in> set (mascotas db). 1 \<le> m_id m \<and> m_id m \<le> seq_mascotas db)"

section \<open>Example states\<close>

text \<open>The database of a program started on a new file, without a fault.\<close>

definition db_nueva :: database where
  "db_nueva = projr (DatabaseManager None)"

text \<open>The scenario of the specification: Ana, her dog Rex and one visit of Rex.\<close>

definition Ana :: Propietario where
  "Ana = \<lparr>prop_id = None, prop_nombre = ''Ana'', prop_telefono = ''555-1111'',
          prop_direccion = ''Calle 1''\<rparr>"

definition db_Ana :: database where
  "db_Ana = snd (insert_propietario None Ana db_nueva)"

definition Rex :: Mascota where
  "Rex = \<lparr>masc_id = None, masc_nombre = ''Rex'', masc_especie = ''dog'', masc_raza = ''lab'',
          masc_edad = 3, masc_propietario_id = Some 1, masc_propietario_nombre = None\<rparr>"

definition visita :: Consulta where
  "visita = \<lparr>cons_id = None, cons_fecha = \<lparr>year = 2024, month = 5, day = 1\<rparr>,
             cons_motivo = ''checkup'', cons_diagnostico = ''healthy'',
             cons_mascota_id = Some 1, cons_mascota_nombre = None\<rparr>"

definition db_Ana_Rex :: database where
  "db_Ana_Rex = snd (insert_mascota None Rex db_Ana)"

definition db_Rex :: database where
  "db_Rex = snd (insert_consulta None visita db_Ana_Rex)"

text \<open>
  A session at the menu, without faults: Rex is registered with a new owner Bob, Tom with
  a new owner whose name is \<^verbatim>\<open>a_a\<close>, and Bob is then renamed to \<^verbatim>\<open>ana\<close>.
\<close>

definition sin_fallos :: "nat \<Rightarrow> fault option" where
  "sin_fallos k = None"

definition db_Bob :: database where
  "db_Bob =
     snd (turno sin_fallos
            (Opcion1 ''Rex'' ''dog'' ''lab'' [3] ''Bob'' True ''Bob'' ''555-1111'' ''Calle 1'')
            db_nueva)"

definition db_Bob_a_a :: database where
  "db_Bob_a_a =
     snd (turno sin_fallos
            (Opcion1 ''Tom'' ''cat'' ''siames'' [2] ''a_a'' True ''a_a'' ''555-2222'' ''Calle 2'')
            db_Bob)"

definition db_ana_a_a :: database where
  "db_ana_a_a = snd (turno sin_fallos (Opcion6 1 ''ana'' [] []) db_Bob_a_a)"

text \<open>
  Four visits of Rex, registered at the menu out of the order of their dates, the first
  and the last on the same day.
\<close>

definition db_visitas :: database where
  "db_visitas =
     snd (turno sin_fallos (Opcion2 1 \<lparr>year = 2024, month = 5, day = 1\<rparr> ''peso'' ''sano'')
       (snd (turno sin_fallos (Opcion2 1 \<lparr>year = 2024, month = 12, day = 31\<rparr> ''vacuna'' ''sano'')
          (snd (turno sin_fallos (Opcion2 1 \<lparr>year = 2025, month = 1, day = 15\<rparr> ''control'' ''sano'')
             (snd (turno sin_fallos
                     (Opcion2 1 \<lparr>year = 2024, month = 5, day = 1\<rparr> ''checkup'' ''healthy'')
                db_Bob)))))))"

text \<open>
  A visit of Rex in the year 999: inserted by the store into the scenario of the
  specification, and registered at the menu, where the date is typed as
  \<^verbatim>\<open>02-01-0999\<close>.
\<close>

definition visita_999 :: Consulta where
  "visita_999 = visita\<lparr>cons_fecha := \<lparr>year = 999, month = 1, day = 2\<rparr>\<rparr>"

definition db_999 :: database where
  "db_999 = snd (insert_consulta None visita_999 db_Ana_Rex)"

definition db_Bob_999 :: database where
  "db_Bob_999 =
     snd (turno sin_fallos (Opcion2 1 \<lparr>year = 999, month = 1, day = 2\<rparr> ''checkup'' ''healthy'')
            db_Bob)"


section \<open>Properties of the store\<close>

lemmas engine_defs = execute_def sqlite_integer_def raised_def commit_def fetchone_def
  fetchall_def new_rowid_def DatabaseManager_def create_tables_def connect_def

lemmas store_defs =
  insert_propietario_def get_propietario_by_nombre_def get_propietario_by_id_def
  get_all_propietarios_def update_propietario_def delete_propietario_def insert_mascota_def
  get_all_mascotas_def get_mascota_by_id_def update_mascota_def delete_mascota_def
  insert_consulta_def get_consultas_by_mascota_id_def get_consulta_by_id_def
  update_consulta_def delete_consulta_def

lemmas sql_defs =
  sql_insert_propietario_def sql_select_propietarios_like_def sql_select_propietarios_id_def
  sql_select_propietarios_def sql_update_propietarios_def sql_delete_propietarios_def
  sql_insert_mascota_def sql_select_mascotas_join_def sql_select_mascotas_join_id_def
  sql_update_mascotas_def sql_delete_mascotas_def sql_insert_consulta_def join_consultas_def
  sql_select_consultas_join_mascota_def sql_select_consultas_join_id_def
  sql_update_consultas_def sql_delete_consultas_def set_propietarios_def set_mascotas_def
  set_consultas_def values_m_def values_c_def utf8_length_def

lemmas class_defs = Propietario_of_row_def Mascota_of_row_def Consulta_of_row_def Consulta_init_def

lemmas date_defs = strftime_Ymd_def decimal.simps isoformat_def pad2_def pad4_def digit_def
  is_digit_def in_range_def
  digit_val_def valid_date_def days_in_month_def is_leap_def

lemmas flow_defs = get_propietario_or_create_def registrar_mascota_def registrar_consulta_def
  actualizar_propietario_def actualizar_mascota_def actualizar_consulta_def
  eliminar_propietario_def eliminar_mascota_def eliminar_consulta_def nuevo_item_def
  strip_def isspace_def sin_fallos_def

lemma eq_char_of_iff: "c = char_of (n::nat) \<longleftrightarrow> take_bit 8 n = of_char c"
  by (metis char_of_eq_iff)

lemmas eval_defs = flow_defs store_defs sql_defs engine_defs class_defs date_defs
  SQLITE_MAX_LIKE_PATTERN_LENGTH_def sql_upper_def char_of_eq_iff eq_char_of_iff

subsection \<open>The example states, evaluated\<close>

lemma db_nueva_eq:
  "db_nueva = \<lparr>propietarios = [], mascotas = [], consultas = [], seq_propietarios = 0,
               seq_mascotas = 0, seq_consultas = 0, foreign_keys = False\<rparr>"
  by (simp add: db_nueva_def DatabaseManager_def create_tables_def connect_def)

lemma DatabaseManager_nueva: "DatabaseManager None = Inr db_nueva"
  by (simp add: db_nueva_def DatabaseManager_def create_tables_def connect_def)

lemma DatabaseManager_no_connection: "DatabaseManager (Some e) = Inl AttributeError"
  by (simp add: DatabaseManager_def create_tables_def connect_def)

lemma DatabaseManager_Inr: "DatabaseManager err = Inr db \<Longrightarrow> db = db_nueva"
  by (cases err) (simp_all add: db_nueva_def DatabaseManager_def create_tables_def connect_def)

lemma reachable_db_nueva: "reachable db_nueva"
  by (rule reachable.inicio [OF DatabaseManager_nueva])

lemma db_Ana_eq:
  "db_Ana = \<lparr>propietarios = [\<lparr>p_id = 1, p_nombre = ''Ana'', p_telefono = ''555-1111'',
                               p_direccion = ''Calle 1''\<rparr>],
             mascotas = [], consultas = [], seq_propietarios = 1, seq_mascotas = 0,
             seq_consultas = 0, foreign_keys = False\<rparr>"
  unfolding db_Ana_def db_nueva_eq
  by (simp add: Ana_def insert_propietario_def sql_insert_propietario_def engine_defs)

lemma db_Ana_Rex_eq:
  "db_Ana_Rex =
   \<lparr>propietarios = [\<lparr>p_id = 1, p_nombre = ''Ana'', p_telefono = ''555-1111'',
                     p_direccion = ''Calle 1''\<rparr>],
    mascotas = [\<lparr>m_id = 1, m_nombre = ''Rex'', m_especie = ''dog'', m_raza = ''lab'',
                 m_edad = 3, m_id_propietario = Some 1\<rparr>],
    consultas = [], seq_propietarios = 1, seq_mascotas = 1, seq_consultas = 0,
    foreign_keys = False\<rparr>"
  by (simp add: db_Ana_Rex_def db_Ana_eq Rex_def eval_defs)

lemma db_Rex_eq:
  "db_Rex = \<lparr>propietarios = [\<lparr>p_id = 1, p_nombre = ''Ana'', p_telefono = ''555-1111'',
                               p_direccion = ''Calle 1''\<rparr>],
             mascotas = [\<lparr>m_id = 1, m_nombre = ''Rex'', m_especie = ''dog'', m_raza = ''lab'',
                          m_edad = 3, m_id_propietario = Some 1\<rparr>],
             consultas = [\<lparr>c_id = 1, c_fecha = ''2024-05-01'', c_motivo = ''checkup'',
                           c_diagnostico = ''healthy'', c_id_mascota = Some 1\<rparr>],
             seq_propietarios = 1, seq_mascotas = 1, seq_consultas = 1, foreign_keys = False\<rparr>"
  by (simp add: db_Rex_def db_Ana_Rex_eq visita_def eval_defs)

lemma db_Bob_eq:
  "db_Bob =
   \<lparr>propietarios =
      [\<lparr>p_id = 1, p_nombre = ''Bob'', p_telefono = ''555-1111'', p_direccion = ''Calle 1''\<rparr>],
    mascotas =
      [\<lparr>m_id = 1, m_nombre = ''Rex'', m_especie = ''dog'', m_raza = ''lab'', m_edad = 3,
        m_id_propietario = Some 1\<rparr>],
    consultas = [], seq_propietarios = 1, seq_mascotas = 1, seq_consultas = 0,
    foreign_keys = False\<rparr>"
  unfolding db_Bob_def db_nueva_eq by (simp add: eval_defs)

lemma db_Bob_a_a_eq:
  "db_Bob_a_a =
   \<lparr>propietarios =
      [\<lparr>p_id = 1, p_nombre = ''Bob'', p_telefono = ''555-1111'', p_direccion = ''Calle 1''\<rparr>,
       \<lparr>p_id = 2, p_nombre = ''a_a'', p_telefono = ''555-2222'', p_direccion = ''Calle 2''\<rparr>],
    mascotas =
      [\<lparr>m_id = 1, m_nombre = ''Rex'', m_especie = ''dog'', m_raza = ''lab'', m_edad = 3,
        m_id_propietario = Some 1\<rparr>,
       \<lparr>m_id = 2, m_nombre = ''Tom'', m_especie = ''cat'', m_raza = ''siames'', m_edad = 2,
        m_id_propietario = Some 2\<rparr>],
    consultas = [], seq_propietarios = 2, seq_mascotas = 2, seq_consultas = 0,
    foreign_keys = False\<rparr>"
  unfolding db_Bob_a_a_def db_Bob_eq by (simp add: eval_defs)

lemma db_ana_a_a_eq:
  "db_ana_a_a =
   \<lparr>propietarios =
      [\<lparr>p_id = 1, p_nombre = ''ana'', p_telefono = ''555-1111'', p_direccion = ''Calle 1''\<rparr>,
       \<lparr>p_id = 2, p_nombre = ''a_a'', p_telefono = ''555-2222'', p_direccion = ''Calle 2''\<rparr>],
    mascotas =
      [\<lparr>m_id = 1, m_nombre = ''Rex'', m_especie = ''dog'', m_raza = ''lab'', m_edad = 3,
        m_id_propietario = Some 1\<rparr>,
       \<lparr>m_id = 2, m_nombre = ''Tom'', m_especie = ''cat'', m_raza = ''siames'', m_edad = 2,
        m_id_propietario = Some 2\<rparr>],
    consultas = [], seq_propietarios = 2, seq_mascotas = 2, seq_consultas = 0,
    foreign_keys = False\<rparr>"
  unfolding db_ana_a_a_def db_Bob_a_a_eq by (simp add: eval_defs)

lemma reachable_db_ana_a_a: "reachable db_ana_a_a"
  unfolding db_ana_a_a_def db_Bob_a_a_def db_Bob_def
  by (intro reachable.paso reachable_db_nueva) simp_all

subsection \<open>Dates and their texts\<close>

text \<open>
  From the year 1000 on, reading the text that \<^verbatim>\<open>strftime\<close> writes gives the date back,
  and the texts of two dates are in the order of the dates. The text of an earlier year
  has fewer than four digits before the first hyphen, and \<^verbatim>\<open>strptime\<close> rejects it.
\<close>

lemma of_char_digit: "n < 10 \<Longrightarrow> (of_char (digit n) :: nat) = 48 + n"
  by (simp add: digit_def)
lemma digit_val_digit: "n < 10 \<Longrightarrow> digit_val (digit n) = n"
  by (simp add: digit_val_def of_char_digit)
lemma is_digit_digit: "n < 10 \<Longrightarrow> is_digit (digit n)"
  by (simp add: is_digit_def of_char_digit)
lemma in_range_digit: "n < 10 \<Longrightarrow> in_range (digit n) lo hi \<longleftrightarrow> lo \<le> n \<and> n \<le> hi"
  by (simp add: in_range_def of_char_digit)
lemma digit_eq_char: "n < 10 \<Longrightarrow> digit n = c \<longleftrightarrow> 48 + n = (of_char c :: nat)"
  by (simp add: digit_def char_of_eq_iff take_bit_eq_mod)

lemma pad2_split: "a < 10 \<Longrightarrow> b < 10 \<Longrightarrow> pad2 (10 * a + b) = [digit a, digit b]"
  by (simp add: pad2_def)

lemma two_digits: "n < 100 \<Longrightarrow> \<exists>a b. a < 10 \<and> b < 10 \<and> n = 10 * a + (b::nat)"
  by (rule exI [of _ "n div 10"], rule exI [of _ "n mod 10"]) simp

lemma match_month_digits:
  assumes "a < 10" "b < 10" "1 \<le> 10 * a + b" "10 * a + b \<le> 12"
  shows "match_month (digit a # digit b # rest) = Some (10 * a + b, rest)"
proof -
  have "a = 0 \<or> a = 1" using assms by arith
  then show ?thesis
  proof
    assume "a = 0"
    with assms show ?thesis
      by (simp add: digit_eq_char in_range_digit digit_val_digit)
  next
    assume "a = 1"
    with assms show ?thesis
      by (simp add: digit_eq_char in_range_digit digit_val_digit)
  qed
qed

lemma match_day_digits:
  assumes "a < 10" "b < 10" "1 \<le> 10 * a + b" "10 * a + b \<le> 31"
  shows "match_day [digit a, digit b] = Some (10 * a + b, [])"
proof -
  consider "a = 0" | "a = 1" | "a = 2" | "a = 3" using assms by arith
  then show ?thesis
  proof cases
    case 1
    with assms show ?thesis
      by (simp add: digit_eq_char in_range_digit digit_val_digit is_digit_digit)
  next
    case 2
    with assms show ?thesis
      by (simp add: digit_eq_char in_range_digit digit_val_digit is_digit_digit)
  next
    case 3
    with assms show ?thesis
      by (simp add: digit_eq_char in_range_digit digit_val_digit is_digit_digit)
  next
    case 4
    with assms show ?thesis
      by (simp add: digit_eq_char in_range_digit digit_val_digit is_digit_digit)
  qed
qed

lemma match_month_pad2:
  assumes "1 \<le> m" "m \<le> 12"
  shows "match_month (pad2 m @ rest) = Some (m, rest)"
proof -
  from assms have "m < 100" by simp
  from two_digits [OF this] obtain a b where ab: "a < 10" "b < 10" and m: "m = 10 * a + b"
    by blast
  have "match_month (digit a # digit b # rest) = Some (10 * a + b, rest)"
    using ab assms unfolding m by (rule match_month_digits)
  then show ?thesis
    unfolding m by (simp only: pad2_split [OF ab] append_Cons append_Nil)
qed

lemma match_day_pad2:
  assumes "1 \<le> d" "d \<le> 31"
  shows "match_day (pad2 d) = Some (d, [])"
proof -
  from assms have "d < 100" by simp
  from two_digits [OF this] obtain a b where ab: "a < 10" "b < 10" and d: "d = 10 * a + b"
    by blast
  have "match_day [digit a, digit b] = Some (10 * a + b, [])"
    using ab assms unfolding d by (rule match_day_digits)
  then show ?thesis
    unfolding d by (simp only: pad2_split [OF ab])
qed


lemma year_digits:
  fixes n :: nat
  assumes "n \<le> 9999"
  shows "1000 * (n div 1000 mod 10) + 100 * (n div 100 mod 10) + 10 * (n div 10 mod 10)
         + n mod 10 = n"
proof -
  define q1 where "q1 = n div 10"
  define q2 where "q2 = n div 100"
  define q3 where "q3 = n div 1000"
  have e2: "q1 div 10 = q2" unfolding q1_def q2_def by (simp add: div_mult2_eq [symmetric])
  have e3: "q2 div 10 = q3" unfolding q2_def q3_def by (simp add: div_mult2_eq [symmetric])
  have s1: "n = 10 * q1 + n mod 10" unfolding q1_def by simp
  have s2: "q1 = 10 * q2 + q1 mod 10" unfolding e2 [symmetric] by simp
  have s3: "q2 = 10 * q3 + q2 mod 10" unfolding e3 [symmetric] by simp
  have "q3 < 10" unfolding q3_def using assms by (simp add: div_less_iff_less_mult)
  then have s4: "q3 mod 10 = q3" by simp
  have "1000 * (q3 mod 10) + 100 * (q2 mod 10) + 10 * (q1 mod 10) + n mod 10 = n"
    using s1 s2 s3 s4 by linarith
  then show ?thesis unfolding q1_def q2_def q3_def .
qed

lemma decimal_pad4:
  assumes "1000 \<le> n" "n \<le> 9999"
  shows "decimal n = pad4 n"
proof -
  have a: "\<not> n < 10" "\<not> n div 10 < 10" "\<not> n div 100 < 10" "n div 1000 < 10"
    using assms by simp_all
  have d: "n div 10 div 10 = n div 100" "n div 100 div 10 = n div 1000"
    by (simp_all add: div_mult2_eq [symmetric])
  have m: "n div 1000 mod 10 = n div 1000" using a(4) by simp
  show ?thesis
    by (simp add: decimal.simps [of n] decimal.simps [of "n div 10"]
        decimal.simps [of "n div 100"] decimal.simps [of "n div 1000"] a d m pad4_def)
qed

lemma strftime_Ymd_pad4:
  assumes "1000 \<le> year d" "year d \<le> 9999"
  shows "strftime_Ymd d = pad4 (year d) @ ''-'' @ pad2 (month d) @ ''-'' @ pad2 (day d)"
  by (simp add: strftime_Ymd_def decimal_pad4 [OF assms])

lemma strptime_strftime:
  assumes "valid_date d" "1000 \<le> year d"
  shows "strptime_Ymd (strftime_Ymd d) = Some d"
proof -
  have y: "year d \<le> 9999" and m: "1 \<le> month d" "month d \<le> 12"
    and dd: "1 \<le> day d" "day d \<le> 31"
    using assms(1) by (auto simp: valid_date_def days_in_month_def split: if_splits)
  have r: "\<lparr>year = 1000 * (year d div 1000 mod 10) + 100 * (year d div 100 mod 10)
                 + 10 * (year d div 10 mod 10) + year d mod 10,
           month = month d, day = day d\<rparr> = d"
    by (simp add: year_digits [OF y])
  have mm: "match_month (pad2 (month d) @ CHR ''-'' # pad2 (day d))
            = Some (month d, CHR ''-'' # pad2 (day d))"
    by (rule match_month_pad2 [OF m])
  show ?thesis
    using assms(1)
    by (simp add: strftime_Ymd_pad4 [OF assms(2) y] pad4_def mm match_day_pad2 [OF dd]
        is_digit_digit digit_val_digit r)
qed

lemma strptime_strftime_short:
  assumes "year d < 1000"
  shows "strptime_Ymd (strftime_Ymd d) = None"
proof -
  have dash: "\<not> is_digit CHR ''-''" by (simp add: is_digit_def)
  consider "year d < 10" | "10 \<le> year d" "year d < 100" | "100 \<le> year d" "year d < 1000"
    using assms by linarith
  then show ?thesis
  proof cases
    case 1
    then have "decimal (year d) = [digit (year d)]"
      by (simp add: decimal.simps [of "year d"])
    then show ?thesis by (simp add: strftime_Ymd_def pad2_def dash)
  next
    case 2
    then have a: "\<not> year d < 10" "year d div 10 < 10"
      by simp_all
    have "decimal (year d) = [digit (year d div 10), digit (year d mod 10)]"
      by (simp add: decimal.simps [of "year d"] decimal.simps [of "year d div 10"] a)
    then show ?thesis by (simp add: strftime_Ymd_def pad2_def dash)
  next
    case 3
    then have a: "\<not> year d < 10" "\<not> year d div 10 < 10" "year d div 100 < 10"
      by simp_all
    have "year d div 10 div 10 = year d div 100" by (simp add: div_mult2_eq [symmetric])
    then have "decimal (year d)
                 = [digit (year d div 100), digit (year d div 10 mod 10), digit (year d mod 10)]"
      by (simp add: decimal.simps [of "year d"] decimal.simps [of "year d div 10"]
          decimal.simps [of "year d div 100"] a)
    then show ?thesis by (simp add: strftime_Ymd_def pad2_def dash)
  qed
qed

lemma digit_less: "a < 10 \<Longrightarrow> b < 10 \<Longrightarrow> digit a < digit b \<longleftrightarrow> a < b"
  by (simp add: less_char_def of_char_digit)

lemma digit_eq_iff: "a < 10 \<Longrightarrow> b < 10 \<Longrightarrow> digit a = digit b \<longleftrightarrow> a = b"
  by (simp add: digit_eq_char of_char_digit)

lemma pad2_le:
  assumes "a < 100" "b < 100"
  shows "pad2 a @ s \<le> pad2 b @ t \<longleftrightarrow> a < b \<or> (a = b \<and> s \<le> t)"
proof -
  from two_digits [OF assms(1)] obtain a1 a0 where a: "a1 < 10" "a0 < 10" "a = 10 * a1 + a0"
    by blast
  from two_digits [OF assms(2)] obtain b1 b0 where b: "b1 < 10" "b0 < 10" "b = 10 * b1 + b0"
    by blast
  have "pad2 a @ s \<le> pad2 b @ t \<longleftrightarrow>
        a1 < b1 \<or> (a1 = b1 \<and> (a0 < b0 \<or> (a0 = b0 \<and> s \<le> t)))"
    unfolding a(3) b(3) using a(1,2) b(1,2)
    by (simp add: pad2_split digit_less digit_eq_iff)
  also have "\<dots> \<longleftrightarrow> a < b \<or> (a = b \<and> s \<le> t)"
    unfolding a(3) b(3) using a(1,2) b(1,2) by auto
  finally show ?thesis .
qed

lemma pad4_pad2: "pad4 n = pad2 (n div 100) @ pad2 (n mod 100)"
proof -
  have m: "n mod 100 = 10 * (n div 10 mod 10) + n mod 10"
    using mod_mult2_eq [of n 10 10] by simp
  have 1: "n div 100 div 10 = n div 1000" by (simp add: div_mult2_eq [symmetric])
  have 2: "n mod 100 div 10 mod 10 = n div 10 mod 10" unfolding m by simp
  have 3: "n mod 100 mod 10 = n mod 10" unfolding m by simp
  show ?thesis by (simp add: pad4_def pad2_def 1 2 3)
qed

lemma div_mod_100_less:
  fixes a b :: nat
  shows "a < b \<longleftrightarrow> a div 100 < b div 100 \<or> (a div 100 = b div 100 \<and> a mod 100 < b mod 100)"
proof -
  have a: "a = 100 * (a div 100) + a mod 100" by simp
  have b: "b = 100 * (b div 100) + b mod 100" by simp
  have "a mod 100 < 100" "b mod 100 < 100" by simp_all
  then show ?thesis using a b by linarith
qed

lemma div_mod_100_eq:
  fixes a b :: nat
  shows "a = b \<longleftrightarrow> a div 100 = b div 100 \<and> a mod 100 = b mod 100"
  by (metis div_mult_mod_eq)

lemma pad4_le:
  assumes "a \<le> 9999" "b \<le> 9999"
  shows "pad4 a @ s \<le> pad4 b @ t \<longleftrightarrow> a < b \<or> (a = b \<and> s \<le> t)"
proof -
  have hi: "a div 100 < 100" "b div 100 < 100"
    using assms by (simp_all add: div_less_iff_less_mult)
  have lo: "a mod 100 < 100" "b mod 100 < 100" by simp_all
  have "pad4 a @ s \<le> pad4 b @ t \<longleftrightarrow>
        a div 100 < b div 100 \<or>
        (a div 100 = b div 100 \<and> (a mod 100 < b mod 100 \<or> (a mod 100 = b mod 100 \<and> s \<le> t)))"
    by (simp only: pad4_pad2 append_assoc pad2_le [OF hi] pad2_le [OF lo])
  also have "\<dots> \<longleftrightarrow> a < b \<or> (a = b \<and> s \<le> t)"
    using div_mod_100_less [of a b] div_mod_100_eq [of a b] by blast
  finally show ?thesis .
qed

lemma strftime_le:
  assumes "valid_date a" "valid_date b" "1000 \<le> year a" "1000 \<le> year b"
  shows "strftime_Ymd a \<le> strftime_Ymd b \<longleftrightarrow> date_le a b"
proof -
  have y: "year a \<le> 9999" "year b \<le> 9999"
    using assms by (simp_all add: valid_date_def)
  have m: "month a < 100" "month b < 100"
    using assms by (simp_all add: valid_date_def)
  have d: "day a < 100" "day b < 100"
    using assms by (auto simp: valid_date_def days_in_month_def split: if_splits)
  have dd: "pad2 (day a) \<le> pad2 (day b) \<longleftrightarrow> day a \<le> day b"
    using pad2_le [OF d, of "[]" "[]"] by auto
  show ?thesis
    by (simp add: strftime_Ymd_pad4 [OF assms(3) y(1)] strftime_Ymd_pad4 [OF assms(4) y(2)]
        pad4_le [OF y] pad2_le [OF m] dd date_le_def)
qed

subsection \<open>The engine calls\<close>

lemma execute_cases:
  "(\<exists>e. execute flt c ps r = Inl (SqliteError e)) \<or> execute flt c ps r = Inl OverflowError \<or>
   (\<exists>v. r = Inr v \<and> execute flt c ps r = Inr v)"
  by (cases r) (auto simp: execute_def split: option.splits)

lemma commit_cases: "(\<exists>e. commit flt = Inl (SqliteError e)) \<or> commit flt = Inr ()"
  by (auto simp: commit_def split: option.splits)

lemma execute_not_compiled:
  "execute flt False ps r =
     Inl (SqliteError (case raised flt AtCompile of Some e' \<Rightarrow> e' | None \<Rightarrow> OperationalError))"
  by (simp add: execute_def split: option.splits)

lemma execute_no_parameter_Inl: "\<exists>e'. execute flt c [] (Inl e) = Inl (SqliteError e')"
  by (simp add: execute_def split: option.splits)

lemma execute_overflow:
  "\<not> list_all sqlite_integer ps \<Longrightarrow> execute None True ps r = Inl OverflowError"
  by (simp add: execute_def raised_def)

lemma execute_Inr_cases:
  assumes "list_all sqlite_integer ps"
  shows "execute flt True ps (Inr v) = Inr v \<or>
         (\<exists>e. execute flt True ps (Inr v) = Inl (SqliteError e))"
  using assms by (auto simp: execute_def split: option.splits)

lemma map_if_no_hit: "\<forall>r \<in> set rows. \<not> P r \<Longrightarrow> map (\<lambda>r. if P r then f r else r) rows = rows"
  by (induction rows) auto

lemma filter_no_hit: "\<forall>r \<in> set rows. \<not> P r \<Longrightarrow> filter P rows = []"
  by (induction rows) auto

lemma filter_key_distinct:
  "distinct (map f xs) \<Longrightarrow> x \<in> set xs \<Longrightarrow> filter (\<lambda>y. f y = f x) xs = [x]"
proof (induction xs)
  case Nil
  then show ?case by simp
next
  case (Cons a xs)
  show ?case
  proof (cases "a = x")
    case True
    with Cons.prems have "\<forall>y \<in> set xs. f y \<noteq> f x" by (metis distinct.simps(2) image_eqI list.simps(9) set_map)
    then have "filter (\<lambda>y. f y = f x) xs = []" by (simp add: filter_no_hit)
    with True show ?thesis by simp
  next
    case False
    with Cons.prems have "x \<in> set xs" "f a \<noteq> f x" by auto
    with Cons show ?thesis by simp
  qed
qed

lemma fetchone_cases:
  "fetchone flt rows = Inr (case rows of [] \<Rightarrow> None | r # _ \<Rightarrow> Some r) \<or>
   (\<exists>e. fetchone flt rows = Inl (SqliteError e))"
  by (auto simp: fetchone_def split: option.splits)

lemma fetchall_cases:
  "fetchall flt rows = Inr rows \<or> (\<exists>e. fetchall flt rows = Inl (SqliteError e))"
  by (auto simp: fetchall_def split: option.splits)


subsection \<open>Duplicate owner names\<close>

text \<open>
  Claim C2. Inserting an owner whose name is the name of an owner already in the store
  fails: \<^verbatim>\<open>insert_propietario\<close> returns \<^verbatim>\<open>None\<close>, so no id is assigned, and the database
  is the one before the call, with the same owners and every row as it was. This holds
  with and without a fault of the engine.
\<close>

theorem C2_insert_propietario_duplicate:
  assumes "\<exists>p \<in> set (propietarios db). p_nombre p = prop_nombre propietario"
  shows "insert_propietario flt propietario db = (Inr None, db)"
proof -
  from assms have dup: "prop_nombre propietario \<in> set (map p_nombre (propietarios db))"
    by (metis image_eqI set_map)
  have "\<exists>e. sql_insert_propietario (prop_nombre propietario) (prop_telefono propietario)
            (prop_direccion propietario) db = Inl e"
    using dup by (simp add: sql_insert_propietario_def split: sum.splits)
  then obtain e where "sql_insert_propietario (prop_nombre propietario)
      (prop_telefono propietario) (prop_direccion propietario) db = Inl e" ..
  then have "\<exists>e'. execute flt True [] (sql_insert_propietario (prop_nombre propietario)
      (prop_telefono propietario) (prop_direccion propietario) db) = Inl (SqliteError e')"
    by (simp add: execute_no_parameter_Inl)
  then show ?thesis
    by (auto simp: insert_propietario_def)
qed

theorem C2_witness:
  "(\<exists>p \<in> set (propietarios db_Ana). p_nombre p = ''Ana'') \<and>
   insert_propietario None
     \<lparr>prop_id = None, prop_nombre = ''Ana'', prop_telefono = ''555-2222'',
      prop_direccion = ''Calle 2''\<rparr> db_Ana = (Inr None, db_Ana)"
  using C2_insert_propietario_duplicate
    [of db_Ana "\<lparr>prop_id = None, prop_nombre = ''Ana'', prop_telefono = ''555-2222'',
                 prop_direccion = ''Calle 2''\<rparr>" None]
  by (simp add: db_Ana_eq)

subsection \<open>Cascading delete\<close>

text \<open>
  Claim C1, at the scenario of the specification: Ana (owner 1), her pet Rex (pet 1) and
  one visit of Rex (visit 1). \<^verbatim>\<open>delete_propietario\<close> returns \<^verbatim>\<open>True\<close> and removes the row
  of Ana and nothing else: the connection never turns \<open>foreign_keys\<close> on, so the
  ON DELETE CASCADE clauses of the tables do not run. The pet's row and the visit's row
  are still there (one row is gone, not three); the pet is no longer found, because its
  query joins the owners, but the visit still is.
\<close>

theorem C1_delete_propietario_no_cascade:
  "delete_propietario None (Some 1) db_Rex = (Inr True, db_Rex\<lparr>propietarios := []\<rparr>) \<and>
   length (propietarios db_Rex) + length (mascotas db_Rex) + length (consultas db_Rex) = 3 \<and>
   length (propietarios (snd (delete_propietario None (Some 1) db_Rex)))
     + length (mascotas (snd (delete_propietario None (Some 1) db_Rex)))
     + length (consultas (snd (delete_propietario None (Some 1) db_Rex))) = 2 \<and>
   get_mascota_by_id None (Some 1) (snd (delete_propietario None (Some 1) db_Rex)) = Inr None \<and>
   get_consulta_by_id None (Some 1) (snd (delete_propietario None (Some 1) db_Rex)) =
     Inr (Some (visita\<lparr>cons_id := Some 1, cons_mascota_nombre := Some ''Rex''\<rparr>))"
  unfolding db_Rex_eq by (simp add: eval_defs visita_def)

text \<open>With \<open>foreign_keys\<close> on, the same call removes the three rows.\<close>

lemma delete_propietario_foreign_keys_on:
  "delete_propietario None (Some 1) (db_Rex\<lparr>foreign_keys := True\<rparr>) =
     (Inr True, db_Rex\<lparr>foreign_keys := True, propietarios := [], mascotas := [],
                       consultas := []\<rparr>)"
  unfolding db_Rex_eq by (simp add: eval_defs)

subsection \<open>Lookup of an owner by name\<close>

text \<open>
  Claim C5, at the query \<^verbatim>\<open>%\<close> on the store that holds the owner Ana alone:
  \<^verbatim>\<open>get_propietario_by_nombre\<close> returns Ana, whose name is not the query, in any letter
  case. The statement compares with LIKE and binds the query as the pattern.
\<close>

theorem C5_get_propietario_by_nombre_wildcard:
  "get_propietario_by_nombre None ''%'' db_Ana = Inr (Some (Ana\<lparr>prop_id := Some 1\<rparr>)) \<and>
   map sql_upper ''%'' \<noteq> map sql_upper ''Ana''"
  unfolding db_Ana_eq by (simp add: eval_defs Ana_def)

subsection \<open>Renaming an owner to a name in use\<close>

text \<open>
  Claim C3, in the state the example session reaches: owner 1 is \<^verbatim>\<open>ana\<close>, owner 2 is
  \<^verbatim>\<open>a_a\<close>. Updating owner 1 with the new name \<^verbatim>\<open>a_a\<close>, the name of owner 2: the lookup
  by name returns owner 1 itself (the pattern \<^verbatim>\<open>a_a\<close> matches \<^verbatim>\<open>ana\<close>, the first row), so
  the workflow does not report the name as taken; it calls \<^verbatim>\<open>update_propietario\<close>, which
  fails on the UNIQUE constraint and returns \<^verbatim>\<open>False\<close>, and ends with the message that
  the owner could not be updated. The database is unchanged.
\<close>

theorem C3_actualizar_propietario_shadowed:
  "reachable db_ana_a_a \<and>
   get_propietario_by_nombre None ''a_a'' db_ana_a_a =
     Inr (Some \<lparr>prop_id = Some 1, prop_nombre = ''ana'', prop_telefono = ''555-1111'',
                prop_direccion = ''Calle 1''\<rparr>) \<and>
   actualizar_propietario sin_fallos 1 ''a_a'' ''555-9999'' [] db_ana_a_a
     = (Inr NoSePudo, db_ana_a_a) \<and>
   update_propietario None (Some 1) [Nombre_p ''a_a'', Telefono_p ''555-9999''] db_ana_a_a
     = (Inr False, db_ana_a_a)"
  using reachable_db_ana_a_a unfolding db_ana_a_a_eq by (simp add: eval_defs)

subsection \<open>Updates that change nothing\<close>

lemma update_propietario_empty: "update_propietario flt i [] db = (Inr False, db)"
  by (simp add: update_propietario_def execute_not_compiled)

lemma update_mascota_empty: "update_mascota flt i [] db = (Inr False, db)"
  by (simp add: update_mascota_def execute_not_compiled)

lemma update_consulta_empty: "update_consulta flt i [] db = (Inr False, db)"
  by (simp add: update_consulta_def execute_not_compiled)

lemma sql_update_propietarios_missing:
  assumes "i \<notin> Some ` p_id ` set (propietarios db)"
  shows "sql_update_propietarios new_data i db = Inr (0, db)"
proof -
  have no: "\<forall>r \<in> set (propietarios db). \<not> Some (p_id r) = i"
    using assms by auto
  show ?thesis
    by (simp add: sql_update_propietarios_def filter_no_hit [OF no] map_if_no_hit [OF no])
qed

lemma sql_update_mascotas_missing:
  assumes "i \<notin> Some ` m_id ` set (mascotas db)"
  shows "sql_update_mascotas new_data i db = Inr (0, db)"
proof -
  have no: "\<forall>r \<in> set (mascotas db). \<not> Some (m_id r) = i"
    using assms by auto
  show ?thesis
    by (simp add: sql_update_mascotas_def filter_no_hit [OF no] map_if_no_hit [OF no])
qed

lemma sql_update_consultas_missing:
  assumes "i \<notin> Some ` c_id ` set (consultas db)"
  shows "sql_update_consultas new_data i db = Inr (0, db)"
proof -
  have no: "\<forall>r \<in> set (consultas db). \<not> Some (c_id r) = i"
    using assms by auto
  show ?thesis
    by (simp add: sql_update_consultas_def filter_no_hit [OF no] map_if_no_hit [OF no])
qed

lemma written_nothing:
  assumes "list_all sqlite_integer ps"
  shows "(case execute flt True ps (Inr (0::nat, db)) of
            Inl e \<Rightarrow> (except_sqlite3_Error e False, db)
          | Inr (rowcount, db') \<Rightarrow>
              (case commit flt of
                 Inl e \<Rightarrow> (except_sqlite3_Error e False, db')
               | Inr _ \<Rightarrow> (Inr (rowcount > 0), db'))) = (Inr False, db)"
  using execute_Inr_cases [OF assms, of flt "(0::nat, db)"] commit_cases [of flt] by auto

lemma update_propietario_missing:
  assumes "i \<notin> Some ` p_id ` set (propietarios db)" "sqlite_integer i"
  shows "update_propietario flt i new_data db = (Inr False, db)"
proof (cases "new_data = []")
  case True
  then show ?thesis by (simp add: update_propietario_empty)
next
  case False
  have ps: "list_all sqlite_integer [i]" using assms(2) by simp
  show ?thesis
    using False written_nothing [OF ps, where flt = flt and db = db]
    by (simp add: update_propietario_def sql_update_propietarios_missing [OF assms(1)])
qed

lemma update_mascota_missing:
  assumes "i \<notin> Some ` m_id ` set (mascotas db)" "sqlite_integer i"
    and "list_all sqlite_integer (values_m new_data)"
  shows "update_mascota flt i new_data db = (Inr False, db)"
proof (cases "new_data = []")
  case True
  then show ?thesis by (simp add: update_mascota_empty)
next
  case False
  have ps: "list_all sqlite_integer (values_m new_data @ [i])" using assms(2,3) by simp
  show ?thesis
    using False written_nothing [OF ps, where flt = flt and db = db]
    by (simp add: update_mascota_def sql_update_mascotas_missing [OF assms(1)])
qed

lemma update_consulta_missing:
  assumes "i \<notin> Some ` c_id ` set (consultas db)" "sqlite_integer i"
    and "list_all sqlite_integer (values_c new_data)"
  shows "update_consulta flt i new_data db = (Inr False, db)"
proof (cases "new_data = []")
  case True
  then show ?thesis by (simp add: update_consulta_empty)
next
  case False
  have ps: "list_all sqlite_integer (values_c new_data @ [i])" using assms(2,3) by simp
  show ?thesis
    using False written_nothing [OF ps, where flt = flt and db = db]
    by (simp add: update_consulta_def sql_update_consultas_missing [OF assms(1)])
qed

text \<open>
  Claim C4 as it is stated fails for an id that no row has when the id, or an integer of
  the mapping, is outside the 64 bits of the engine's INTEGER: the database module
  raises \<^verbatim>\<open>OverflowError\<close> when it binds the parameters, and the handler of the update,
  which catches \<^verbatim>\<open>sqlite3.Error\<close>, lets it pass. No row changes, but the update does not
  return \<^verbatim>\<open>False\<close>.
\<close>

theorem C4_counterexample:
  "Some 9223372036854775808 \<notin> Some ` p_id ` set (propietarios db_Rex) \<and>
   update_propietario None (Some 9223372036854775808) [Telefono_p ''555-0000''] db_Rex
     = (Inl OverflowError, db_Rex) \<and>
   Some 2 \<notin> Some ` m_id ` set (mascotas db_Rex) \<and>
   update_mascota None (Some 2) [Edad_m 9223372036854775808] db_Rex
     = (Inl OverflowError, db_Rex)"
  unfolding db_Rex_eq by (simp add: eval_defs)

text \<open>
  Claim C4, as amended. For every id and every state, an update with an empty mapping
  returns \<^verbatim>\<open>False\<close> and leaves the database as it was (the statement does not compile,
  which comes before the parameters are bound). An update with any mapping for an id
  that no row of the table has returns \<^verbatim>\<open>False\<close> and leaves the database as it was
  when the id and the integers of the mapping are within the 64 bits of the engine's
  INTEGER. This holds for the update of owners, of pets and of visits, with and without
  a fault.
\<close>

theorem C4_update_empty_or_missing:
  "update_propietario flt i [] db = (Inr False, db) \<and>
   update_mascota flt i [] db = (Inr False, db) \<and>
   update_consulta flt i [] db = (Inr False, db) \<and>
   (i \<notin> Some ` p_id ` set (propietarios db) \<and> sqlite_integer i \<longrightarrow>
      update_propietario flt i datos_p db = (Inr False, db)) \<and>
   (i \<notin> Some ` m_id ` set (mascotas db) \<and> sqlite_integer i \<and>
    list_all sqlite_integer (values_m datos_m) \<longrightarrow>
      update_mascota flt i datos_m db = (Inr False, db)) \<and>
   (i \<notin> Some ` c_id ` set (consultas db) \<and> sqlite_integer i \<and>
    list_all sqlite_integer (values_c datos_c) \<longrightarrow>
      update_consulta flt i datos_c db = (Inr False, db))"
  by (simp add: update_propietario_empty update_mascota_empty update_consulta_empty
      update_propietario_missing update_mascota_missing update_consulta_missing)

theorem C4_witness:
  "Some 2 \<notin> Some ` p_id ` set (propietarios db_Rex) \<and>
   Some 2 \<notin> Some ` m_id ` set (mascotas db_Rex) \<and>
   Some 2 \<notin> Some ` c_id ` set (consultas db_Rex) \<and>
   sqlite_integer (Some 2) \<and>
   list_all sqlite_integer (values_m [Edad_m 4]) \<and>
   list_all sqlite_integer (values_c [Motivo_c ''control'']) \<and>
   update_propietario None (Some 2) [Telefono_p ''555-0000''] db_Rex = (Inr False, db_Rex) \<and>
   update_mascota None (Some 2) [Edad_m 4] db_Rex = (Inr False, db_Rex) \<and>
   update_consulta None (Some 2) [Motivo_c ''control''] db_Rex = (Inr False, db_Rex) \<and>
   update_propietario None (Some 9223372036854775808) [] db_Rex = (Inr False, db_Rex)"
  using C4_update_empty_or_missing
    [of None "Some 2" db_Rex "[Telefono_p ''555-0000'']" "[Edad_m 4]" "[Motivo_c ''control'']"]
        update_propietario_empty [of None "Some 9223372036854775808" db_Rex]
  by (simp add: db_Rex_eq sqlite_integer_def values_m_def values_c_def)

subsection \<open>Pets without an owner row\<close>

lemma get_mascota_by_id_no_rows:
  assumes "sql_select_mascotas_join_id i db = Inr []" "sqlite_integer i"
  shows "get_mascota_by_id flt i db = Inr None"
proof -
  have ps: "list_all sqlite_integer [i]" using assms(2) by simp
  show ?thesis
    using execute_Inr_cases [OF ps, of flt "[] :: (mascota_row \<times> string) list"]
          fetchone_cases [of flt "[] :: (mascota_row \<times> string) list"]
    unfolding get_mascota_by_id_def assms(1) by auto
qed

lemma get_all_mascotas_rows:
  "\<exists>ms. get_all_mascotas flt db = Inr ms \<and>
        set ms \<subseteq> Mascota_of_row ` set (concat (map (\<lambda>m. map (\<lambda>p. (m, p_nombre p))
                               (filter (\<lambda>p. m_id_propietario m = Some (p_id p)) (propietarios db)))
                      (mascotas db)))"
proof -
  have ps: "list_all sqlite_integer []" by simp
  show ?thesis
    using execute_Inr_cases [OF ps, of flt "concat (map (\<lambda>m. map (\<lambda>p. (m, p_nombre p))
                               (filter (\<lambda>p. m_id_propietario m = Some (p_id p)) (propietarios db)))
                      (mascotas db))"]
          fetchall_cases [of flt "concat (map (\<lambda>m. map (\<lambda>p. (m, p_nombre p))
                               (filter (\<lambda>p. m_id_propietario m = Some (p_id p)) (propietarios db)))
                      (mascotas db))"]
    unfolding get_all_mascotas_def sql_select_mascotas_join_def by auto
qed

text \<open>
  Claim C9. A pet row whose owner reference is the id of no owner row (or is NULL) is in
  the table but is not read: \<^verbatim>\<open>get_mascota_by_id\<close> on its id returns \<^verbatim>\<open>None\<close>, and
  \<^verbatim>\<open>get_all_mascotas\<close> returns a list without it, since both queries join the owners.
  The id is the primary key of the table: no two rows have the same, and it is an
  INTEGER of the engine, within 64 bits. Both hold in every state the program reaches
  (the ids of the pets, below).
\<close>

theorem C9_pet_without_owner_not_read:
  assumes "m \<in> set (mascotas db)"
    and "distinct (map m_id (mascotas db))"
    and "sqlite_integer (Some (m_id m))"
    and "\<forall>p \<in> set (propietarios db). m_id_propietario m \<noteq> Some (p_id p)"
  shows "get_mascota_by_id flt (Some (m_id m)) db = Inr None \<and>
         (\<exists>ms. get_all_mascotas flt db = Inr ms \<and> (\<forall>x \<in> set ms. masc_id x \<noteq> Some (m_id m)))"
proof
  have one: "filter (\<lambda>y. Some (m_id y) = Some (m_id m)) (mascotas db) = [m]"
    using filter_key_distinct [OF assms(2) assms(1)] by simp
  have none: "filter (\<lambda>p. m_id_propietario m = Some (p_id p)) (propietarios db) = []"
    using assms(4) by (simp add: filter_no_hit)
  have "sql_select_mascotas_join_id (Some (m_id m)) db = Inr []"
    unfolding sql_select_mascotas_join_id_def one by (simp add: none)
  then show "get_mascota_by_id flt (Some (m_id m)) db = Inr None"
    using assms(3) by (rule get_mascota_by_id_no_rows)
next
  from get_all_mascotas_rows [of flt db] obtain ms where ms: "get_all_mascotas flt db = Inr ms"
    and sub: "set ms \<subseteq> Mascota_of_row ` set (concat (map (\<lambda>m. map (\<lambda>p. (m, p_nombre p))
                               (filter (\<lambda>p. m_id_propietario m = Some (p_id p)) (propietarios db)))
                      (mascotas db)))"
    by blast
  have "masc_id x \<noteq> Some (m_id m)" if "x \<in> set ms" for x
  proof
    assume eq: "masc_id x = Some (m_id m)"
    from that sub obtain m' p where m': "m' \<in> set (mascotas db)" and p: "p \<in> set (propietarios db)"
      and j: "m_id_propietario m' = Some (p_id p)" and x: "x = Mascota_of_row (m', p_nombre p)"
      by auto
    from eq x have "m_id m' = m_id m" by (simp add: Mascota_of_row_def)
    with assms(1,2) m' have "m' = m" by (meson distinct_map inj_onD)
    with j p assms(4) show False by auto
  qed
  with ms show "\<exists>ms. get_all_mascotas flt db = Inr ms \<and> (\<forall>x \<in> set ms. masc_id x \<noteq> Some (m_id m))"
    by blast
qed

theorem C9_witness:
  "\<lparr>m_id = 1, m_nombre = ''Rex'', m_especie = ''dog'', m_raza = ''lab'', m_edad = 3,
     m_id_propietario = Some 1\<rparr> \<in> set (mascotas (db_Rex\<lparr>propietarios := []\<rparr>)) \<and>
   distinct (map m_id (mascotas (db_Rex\<lparr>propietarios := []\<rparr>))) \<and>
   sqlite_integer (Some 1) \<and>
   list_all (\<lambda>p. Some (1::int) \<noteq> Some (p_id p))
     (propietarios (db_Rex\<lparr>propietarios := []\<rparr>)) \<and>
   snd (delete_propietario None (Some 1) db_Rex) = db_Rex\<lparr>propietarios := []\<rparr> \<and>
   get_mascota_by_id None (Some 1) (db_Rex\<lparr>propietarios := []\<rparr>) = Inr None \<and>
   get_all_mascotas None (db_Rex\<lparr>propietarios := []\<rparr>) = Inr []"
  using C9_pet_without_owner_not_read
    [of "\<lparr>m_id = 1, m_nombre = ''Rex'', m_especie = ''dog'', m_raza = ''lab'', m_edad = 3,
          m_id_propietario = Some 1\<rparr>" "db_Rex\<lparr>propietarios := []\<rparr>" None]
  unfolding db_Rex_eq by (simp add: eval_defs)

subsection \<open>The date of a visit, written and read\<close>

lemma fold_max_ge: "x \<in> set ids \<Longrightarrow> x \<le> fold max ids (seq::int)"
proof (induction ids arbitrary: seq)
  case Nil
  then show ?case by simp
next
  case (Cons a ids)
  have mono: "s \<le> fold max ids s" for s :: int
    by (induction ids arbitrary: s) (auto intro: order_trans [OF max.cobounded2])
  show ?case
  proof (cases "x = a")
    case True
    have "a \<le> max a seq" by simp
    also have "\<dots> \<le> fold max ids (max a seq)" by (rule mono)
    finally show ?thesis using True by simp
  next
    case False
    with Cons.prems have "x \<in> set ids" by simp
    then show ?thesis using Cons.IH by simp
  qed
qed

lemma fold_max_seq: "(seq::int) \<le> fold max ids seq"
  by (induction ids arbitrary: seq) (auto intro: order_trans [OF max.cobounded2])

lemma new_rowid_fresh: "new_rowid seq ids = Inr i \<Longrightarrow> \<forall>x \<in> set ids. x < i"
  by (auto simp: new_rowid_def Let_def split: if_splits dest: fold_max_ge [where seq = seq])

lemma new_rowid_range: "new_rowid seq ids = Inr i \<Longrightarrow> 0 \<le> seq \<Longrightarrow> sqlite_integer (Some i)"
  using fold_max_seq [of seq ids]
  by (auto simp: new_rowid_def Let_def sqlite_integer_def split: if_splits)

lemma sql_insert_consulta_Inr:
  assumes "sql_insert_consulta f mo dg mid db = Inr (i, db')"
  shows "db' = db\<lparr>consultas := consultas db @
                     [\<lparr>c_id = i, c_fecha = f, c_motivo = mo, c_diagnostico = dg,
                       c_id_mascota = mid\<rparr>],
                   seq_consultas := i\<rparr>"
    and "\<forall>r \<in> set (consultas db). c_id r < i"
    and "0 \<le> seq_consultas db \<Longrightarrow> sqlite_integer (Some i)"
  using assms new_rowid_fresh [of "seq_consultas db" "map c_id (consultas db)"]
    new_rowid_range [of "seq_consultas db" "map c_id (consultas db)"]
  by (auto simp: sql_insert_consulta_def split: sum.splits if_splits)

lemma insert_consulta_Some:
  assumes "insert_consulta flt consulta db = (Inr (Some registrada), db')"
  shows "\<exists>i. registrada = consulta\<lparr>cons_id := Some i\<rparr> \<and>
             sql_insert_consulta (strftime_Ymd (cons_fecha consulta)) (cons_motivo consulta)
               (cons_diagnostico consulta) (cons_mascota_id consulta) db = Inr (i, db')"
proof -
  let ?r = "sql_insert_consulta (strftime_Ymd (cons_fecha consulta)) (cons_motivo consulta)
               (cons_diagnostico consulta) (cons_mascota_id consulta) db"
  let ?x = "execute flt True [cons_mascota_id consulta] ?r"
  from execute_cases [of flt True "[cons_mascota_id consulta]" ?r]
  consider "\<exists>e. ?x = Inl (SqliteError e)" | "?x = Inl OverflowError"
    | "\<exists>v. ?r = Inr v \<and> ?x = Inr v"
    by blast
  then show ?thesis
  proof cases
    case 1
    with assms show ?thesis by (auto simp: insert_consulta_def)
  next
    case 2
    with assms show ?thesis by (auto simp: insert_consulta_def)
  next
    case 3
    then obtain i db1 where v: "?r = Inr (i, db1)" "?x = Inr (i, db1)" by force
    from commit_cases [of flt] assms v show ?thesis
      by (auto simp: insert_consulta_def)
  qed
qed

text \<open>
  From the year 1000 on, and with the row of the pet in the store, the date of a visit
  that was inserted is the date read back. (The counter of the ids is never negative.)
\<close>

lemma visit_date_round_trip_from_1000:
  assumes "valid_date (cons_fecha consulta)" "1000 \<le> year (cons_fecha consulta)"
    and "insert_consulta flt consulta db = (Inr (Some registrada), db')"
    and "\<exists>m \<in> set (mascotas db). cons_mascota_id consulta = Some (m_id m)"
    and "0 \<le> seq_consultas db"
  shows "\<exists>leida. get_consulta_by_id None (cons_id registrada) db' = Inr (Some leida) \<and>
                 cons_fecha leida = cons_fecha consulta"
proof -
  from insert_consulta_Some [OF assms(3)] obtain i
    where reg: "registrada = consulta\<lparr>cons_id := Some i\<rparr>"
      and ins: "sql_insert_consulta (strftime_Ymd (cons_fecha consulta)) (cons_motivo consulta)
               (cons_diagnostico consulta) (cons_mascota_id consulta) db = Inr (i, db')"
    by blast
  let ?row = "\<lparr>c_id = i, c_fecha = strftime_Ymd (cons_fecha consulta),
               c_motivo = cons_motivo consulta, c_diagnostico = cons_diagnostico consulta,
               c_id_mascota = cons_mascota_id consulta\<rparr>"
  have db': "consultas db' = consultas db @ [?row]" "mascotas db' = mascotas db"
    using sql_insert_consulta_Inr(1) [OF ins] by simp_all
  have i: "sqlite_integer (Some i)"
    using sql_insert_consulta_Inr(3) [OF ins assms(5)] .
  have "\<forall>r \<in> set (consultas db). \<not> Some (c_id r) = Some i"
    using sql_insert_consulta_Inr(2) [OF ins] by auto
  then have old: "filter (\<lambda>r. Some (c_id r) = Some i) (consultas db) = []"
    by (rule filter_no_hit)
  have hit: "filter (\<lambda>r. Some (c_id r) = Some i) (consultas db') = [?row]"
    unfolding db' filter_append old by simp
  then have hit': "filter (\<lambda>r. c_id r = i) (consultas db') = [?row]"
    by simp
  from assms(4) obtain m ms
    where pets: "filter (\<lambda>m. cons_mascota_id consulta = Some (m_id m)) (mascotas db) = m # ms"
    by (metis (mono_tags, lifting) filter_empty_conv list.exhaust)
  have rows: "sql_select_consultas_join_id (Some i) db'
                = Inr ((?row, m_nombre m) # map (\<lambda>m. (?row, m_nombre m)) ms)"
    by (simp add: sql_select_consultas_join_id_def join_consultas_def hit' db'(2) pets)
  have "Consulta_of_row (?row, m_nombre m) =
          Inr \<lparr>cons_id = Some i, cons_fecha = cons_fecha consulta,
               cons_motivo = cons_motivo consulta, cons_diagnostico = cons_diagnostico consulta,
               cons_mascota_id = cons_mascota_id consulta,
               cons_mascota_nombre = Some (m_nombre m)\<rparr>"
    by (simp add: Consulta_of_row_def Consulta_init_def strptime_strftime [OF assms(1,2)])
  then show ?thesis
    using i by (simp add: get_consulta_by_id_def rows reg execute_def raised_def fetchone_def)
qed

lemma db_999_eq:
  "db_999 = \<lparr>propietarios = [\<lparr>p_id = 1, p_nombre = ''Ana'', p_telefono = ''555-1111'',
                               p_direccion = ''Calle 1''\<rparr>],
             mascotas = [\<lparr>m_id = 1, m_nombre = ''Rex'', m_especie = ''dog'', m_raza = ''lab'',
                          m_edad = 3, m_id_propietario = Some 1\<rparr>],
             consultas = [\<lparr>c_id = 1, c_fecha = ''999-01-02'', c_motivo = ''checkup'',
                           c_diagnostico = ''healthy'', c_id_mascota = Some 1\<rparr>],
             seq_propietarios = 1, seq_mascotas = 1, seq_consultas = 1, foreign_keys = False\<rparr>"
  unfolding db_999_def db_Ana_Rex_eq by (simp add: visita_999_def visita_def eval_defs)

lemma db_Bob_999_eq:
  "db_Bob_999 =
   \<lparr>propietarios =
      [\<lparr>p_id = 1, p_nombre = ''Bob'', p_telefono = ''555-1111'', p_direccion = ''Calle 1''\<rparr>],
    mascotas =
      [\<lparr>m_id = 1, m_nombre = ''Rex'', m_especie = ''dog'', m_raza = ''lab'', m_edad = 3,
        m_id_propietario = Some 1\<rparr>],
    consultas =
      [\<lparr>c_id = 1, c_fecha = ''999-01-02'', c_motivo = ''checkup'', c_diagnostico = ''healthy'',
        c_id_mascota = Some 1\<rparr>],
    seq_propietarios = 1, seq_mascotas = 1, seq_consultas = 1, foreign_keys = False\<rparr>"
  unfolding db_Bob_999_def db_Bob_eq by (simp add: eval_defs)

lemma reachable_db_Bob_999: "reachable db_Bob_999"
  unfolding db_Bob_999_def db_Bob_def
  by (intro reachable.paso reachable_db_nueva) (simp_all add: valid_date_def days_in_month_def)

text \<open>
  Claim C7, at a visit of Rex dated 2 January 999, a date of the calendar that the menu
  accepts. \<^verbatim>\<open>insert_consulta\<close> succeeds and assigns id 1; the text stored is
  \<^verbatim>\<open>999-01-02\<close>, since \<^verbatim>\<open>strftime\<close> does not pad the year; \<^verbatim>\<open>get_consulta_by_id\<close> finds the
  row and \<^verbatim>\<open>Consulta.__init__\<close> raises \<^verbatim>\<open>ValueError\<close> on it, since \<^verbatim>\<open>strptime\<close> wants four
  digits: the date is not read back. The same happens at the menu: the visit is
  registered, and from then on the history of Rex and the update and the removal of the
  visit end in \<^verbatim>\<open>ValueError\<close>.
\<close>

theorem C7_visit_date_not_read_back:
  "valid_date (cons_fecha visita_999) \<and>
   insert_consulta None visita_999 db_Ana_Rex
     = (Inr (Some (visita_999\<lparr>cons_id := Some 1\<rparr>)), db_999) \<and>
   map c_fecha (consultas db_999) = [''999-01-02''] \<and>
   get_consulta_by_id None (Some 1) db_999 = Inl ValueError \<and>
   reachable db_Bob_999 \<and>
   turno sin_fallos (Opcion2 1 \<lparr>year = 999, month = 1, day = 2\<rparr> ''checkup'' ''healthy'') db_Bob
     = (Inr Registrado, db_Bob_999) \<and>
   turno sin_fallos (Opcion5 1) db_Bob_999 = (Inl ValueError, db_Bob_999) \<and>
   turno sin_fallos (Opcion8 1 Fecha_vacia ''control'' []) db_Bob_999
     = (Inl ValueError, db_Bob_999) \<and>
   turno sin_fallos (Opcion11 1 True) db_Bob_999 = (Inl ValueError, db_Bob_999)"
proof -
  have v: "valid_date (cons_fecha visita_999)"
    by (simp add: visita_999_def valid_date_def days_in_month_def is_leap_def)
  have i: "insert_consulta None visita_999 db_Ana_Rex
             = (Inr (Some (visita_999\<lparr>cons_id := Some 1\<rparr>)), db_999)"
    unfolding db_999_eq db_Ana_Rex_eq by (simp add: visita_999_def visita_def eval_defs)
  have f: "map c_fecha (consultas db_999) = [''999-01-02'']"
    unfolding db_999_eq by simp
  have g: "get_consulta_by_id None (Some 1) db_999 = Inl ValueError"
    unfolding db_999_eq by (simp add: eval_defs)
  have r: "turno sin_fallos
             (Opcion2 1 \<lparr>year = 999, month = 1, day = 2\<rparr> ''checkup'' ''healthy'') db_Bob
           = (Inr Registrado, db_Bob_999)"
    unfolding db_Bob_999_eq db_Bob_eq by (simp add: eval_defs)
  have h: "turno sin_fallos (Opcion5 1) db_Bob_999 = (Inl ValueError, db_Bob_999)"
    unfolding db_Bob_999_eq by (simp add: eval_defs historia_clinica_def)
  have u: "turno sin_fallos (Opcion8 1 Fecha_vacia ''control'' []) db_Bob_999
           = (Inl ValueError, db_Bob_999)"
    unfolding db_Bob_999_eq by (simp add: eval_defs)
  have d: "turno sin_fallos (Opcion11 1 True) db_Bob_999 = (Inl ValueError, db_Bob_999)"
    unfolding db_Bob_999_eq by (simp add: eval_defs)
  from v i f g reachable_db_Bob_999 r h u d show ?thesis by simp
qed

subsection \<open>Errors of the database\<close>

lemma write_fault:
  assumes "st \<noteq> AtFetch" "st \<noteq> AtCompile \<longrightarrow> list_all sqlite_integer ps"
  shows "fst (case execute (Some (st, e)) c ps r of
                Inl x \<Rightarrow> (except_sqlite3_Error x v, db)
              | Inr (n, db') \<Rightarrow>
                  (case commit (Some (st, e)) of
                     Inl x \<Rightarrow> (except_sqlite3_Error x v, db')
                   | Inr u \<Rightarrow> (g n, db'))) = Inr v"
  using assms
  by (cases st; cases r) (auto simp: execute_def commit_def raised_def split: prod.splits)

lemma read_one_fault:
  assumes "st \<noteq> AtCommit" "st \<noteq> AtCompile \<longrightarrow> list_all sqlite_integer ps"
  shows "(case execute (Some (st, e)) True ps r of
            Inl x \<Rightarrow> except_sqlite3_Error x None
          | Inr rows \<Rightarrow>
              (case fetchone (Some (st, e)) rows of
                 Inl x \<Rightarrow> except_sqlite3_Error x None
               | Inr None \<Rightarrow> g
               | Inr (Some row) \<Rightarrow> h row)) = Inr None"
  using assms
  by (cases st; cases r) (auto simp: execute_def fetchone_def raised_def)

lemma read_all_fault:
  assumes "st \<noteq> AtCommit" "st \<noteq> AtCompile \<longrightarrow> list_all sqlite_integer ps"
  shows "(case execute (Some (st, e)) True ps r of
            Inl x \<Rightarrow> except_sqlite3_Error x []
          | Inr rows \<Rightarrow>
              (case fetchall (Some (st, e)) rows of
                 Inl x \<Rightarrow> except_sqlite3_Error x []
               | Inr rows' \<Rightarrow> h rows')) = Inr []"
  using assms
  by (cases st; cases r) (auto simp: execute_def fetchall_def raised_def)

lemma insert_propietario_fault:
  assumes "st \<noteq> AtFetch"
  shows "fst (insert_propietario (Some (st, e)) propietario db) = Inr None"
  unfolding insert_propietario_def by (rule write_fault [OF assms]) simp

lemma writes_fault:
  assumes "st \<noteq> AtFetch"
    and "st \<noteq> AtCompile \<longrightarrow>
           sqlite_integer i \<and> sqlite_integer (Some (masc_edad mascota)) \<and>
           sqlite_integer (masc_propietario_id mascota) \<and>
           sqlite_integer (cons_mascota_id consulta) \<and>
           list_all sqlite_integer (values_m datos_m) \<and>
           list_all sqlite_integer (values_c datos_c)"
  shows "fst (update_propietario (Some (st, e)) i datos_p db) = Inr False"
    and "fst (delete_propietario (Some (st, e)) i db) = Inr False"
    and "fst (insert_mascota (Some (st, e)) mascota db) = Inr None"
    and "fst (update_mascota (Some (st, e)) i datos_m db) = Inr False"
    and "fst (delete_mascota (Some (st, e)) i db) = Inr False"
    and "fst (insert_consulta (Some (st, e)) consulta db) = Inr None"
    and "fst (update_consulta (Some (st, e)) i datos_c db) = Inr False"
    and "fst (delete_consulta (Some (st, e)) i db) = Inr False"
  unfolding update_propietario_def delete_propietario_def
    insert_mascota_def update_mascota_def delete_mascota_def
    insert_consulta_def update_consulta_def delete_consulta_def
  by (rule write_fault [OF assms(1)], use assms(2) in simp)+

lemma reads_all_fault:
  assumes "st \<noteq> AtCommit"
  shows "get_propietario_by_nombre (Some (st, e)) nombre db = Inr None"
    and "get_all_propietarios (Some (st, e)) db = Inr []"
    and "get_all_mascotas (Some (st, e)) db = Inr []"
  unfolding get_propietario_by_nombre_def get_all_propietarios_def get_all_mascotas_def
  by (rule read_one_fault [OF assms] read_all_fault [OF assms], simp)+

lemma reads_by_id_fault:
  assumes "st \<noteq> AtCommit" "st \<noteq> AtCompile \<longrightarrow> sqlite_integer i"
  shows "get_propietario_by_id (Some (st, e)) i db = Inr None"
    and "get_mascota_by_id (Some (st, e)) i db = Inr None"
    and "get_consultas_by_mascota_id (Some (st, e)) i db = Inr []"
    and "get_consulta_by_id (Some (st, e)) i db = Inr None"
  unfolding get_propietario_by_id_def get_mascota_by_id_def get_consultas_by_mascota_id_def
    get_consulta_by_id_def
  by (rule read_one_fault [OF assms(1)] read_all_fault [OF assms(1)], use assms(2) in simp)+

lemma sql_insert_propietario_name_taken:
  assumes "\<exists>p \<in> set (propietarios db). p_nombre p = n"
  shows "\<exists>err. sql_insert_propietario n t d db = Inl err"
proof -
  from assms have "n \<in> set (map p_nombre (propietarios db))"
    by (metis image_eqI set_map)
  then show ?thesis
    by (simp add: sql_insert_propietario_def split: sum.splits)
qed

lemma insert_propietario_name_taken_None:
  assumes "\<exists>p \<in> set (propietarios db). p_nombre p = prop_nombre propietario"
  shows "fst (insert_propietario None propietario db) = Inr None"
proof -
  from sql_insert_propietario_name_taken [OF assms] obtain err
    where "sql_insert_propietario (prop_nombre propietario) (prop_telefono propietario)
             (prop_direccion propietario) db = Inl err"
    by blast
  then show ?thesis
    by (simp add: insert_propietario_def execute_def raised_def)
qed

lemma get_propietario_by_id_missing:
  assumes "i \<notin> Some ` p_id ` set (propietarios db)" "sqlite_integer i"
  shows "get_propietario_by_id None i db = Inr None"
proof -
  have "\<forall>r \<in> set (propietarios db). \<not> Some (p_id r) = i"
    using assms(1) by auto
  then have "filter (\<lambda>r. Some (p_id r) = i) (propietarios db) = []"
    by (rule filter_no_hit)
  then show ?thesis
    using assms(2)
    by (simp add: get_propietario_by_id_def sql_select_propietarios_id_def execute_def
        raised_def fetchone_def)
qed

lemma delete_propietario_missing:
  assumes "i \<notin> Some ` p_id ` set (propietarios db)" "sqlite_integer i"
  shows "fst (delete_propietario None i db) = Inr False"
proof -
  have "\<forall>r \<in> set (propietarios db). \<not> Some (p_id r) = i"
    using assms(1) by auto
  then have "filter (\<lambda>r. Some (p_id r) = i) (propietarios db) = []"
    by (rule filter_no_hit)
  then show ?thesis
    using assms(2)
    by (simp add: delete_propietario_def sql_delete_propietarios_def execute_def raised_def
        commit_def)
qed

lemma delete_propietario_fault_run:
  "sqlite_integer i \<Longrightarrow> fst (delete_propietario (Some (AtRun, e)) i db) = Inr False"
  by (simp add: delete_propietario_def execute_def raised_def)

text \<open>
  Claim C10. When a call into the engine raises an \<^verbatim>\<open>sqlite3.Error\<close>, at \<^verbatim>\<open>execute\<close>, at
  \<^verbatim>\<open>commit\<close> or at \<^verbatim>\<open>fetchone\<close>/\<^verbatim>\<open>fetchall\<close>, every operation of the store returns
  a value and raises nothing: \<^verbatim>\<open>None\<close> from the inserts and the reads of one record,
  \<^verbatim>\<open>False\<close> from the updates and deletes, the empty list from the listings. The value
  is the one the operation returns without a fault for an id that does not exist, and
  the one \<^verbatim>\<open>insert_propietario\<close> returns for a name already taken, so the caller cannot
  tell these apart by the value. An error while the statement is compiled comes before
  the parameters are bound. A call gets to run the statement, to \<^verbatim>\<open>commit\<close> or to
  \<^verbatim>\<open>fetchone\<close>/\<^verbatim>\<open>fetchall\<close>, and an error can be raised there, only when \<^verbatim>\<open>execute\<close> has
  bound the parameters, that is, when the integers among them are within the 64 bits of
  the engine's INTEGER.
\<close>

theorem C10_database_errors_return_sentinels:
  "(st \<noteq> AtFetch \<longrightarrow>
      fst (insert_propietario (Some (st, e)) propietario db) = Inr None) \<and>
   (st \<noteq> AtFetch \<and>
    (st \<noteq> AtCompile \<longrightarrow>
       sqlite_integer i \<and> sqlite_integer (Some (masc_edad mascota)) \<and>
       sqlite_integer (masc_propietario_id mascota) \<and>
       sqlite_integer (cons_mascota_id consulta) \<and>
       list_all sqlite_integer (values_m datos_m) \<and>
       list_all sqlite_integer (values_c datos_c)) \<longrightarrow>
      fst (update_propietario (Some (st, e)) i datos_p db) = Inr False \<and>
      fst (delete_propietario (Some (st, e)) i db) = Inr False \<and>
      fst (insert_mascota (Some (st, e)) mascota db) = Inr None \<and>
      fst (update_mascota (Some (st, e)) i datos_m db) = Inr False \<and>
      fst (delete_mascota (Some (st, e)) i db) = Inr False \<and>
      fst (insert_consulta (Some (st, e)) consulta db) = Inr None \<and>
      fst (update_consulta (Some (st, e)) i datos_c db) = Inr False \<and>
      fst (delete_consulta (Some (st, e)) i db) = Inr False) \<and>
   (st \<noteq> AtCommit \<longrightarrow>
      get_propietario_by_nombre (Some (st, e)) nombre db = Inr None \<and>
      get_all_propietarios (Some (st, e)) db = Inr [] \<and>
      get_all_mascotas (Some (st, e)) db = Inr []) \<and>
   (st \<noteq> AtCommit \<and> (st \<noteq> AtCompile \<longrightarrow> sqlite_integer i) \<longrightarrow>
      get_propietario_by_id (Some (st, e)) i db = Inr None \<and>
      get_mascota_by_id (Some (st, e)) i db = Inr None \<and>
      get_consultas_by_mascota_id (Some (st, e)) i db = Inr [] \<and>
      get_consulta_by_id (Some (st, e)) i db = Inr None) \<and>
   (i \<notin> Some ` p_id ` set (propietarios db) \<and> sqlite_integer i \<longrightarrow>
      get_propietario_by_id None i db = get_propietario_by_id (Some (AtRun, e)) i db \<and>
      fst (update_propietario None i datos_p db)
        = fst (update_propietario (Some (AtRun, e)) i datos_p db) \<and>
      fst (delete_propietario None i db) = fst (delete_propietario (Some (AtRun, e)) i db)) \<and>
   ((\<exists>p \<in> set (propietarios db). p_nombre p = prop_nombre propietario) \<longrightarrow>
      fst (insert_propietario None propietario db)
        = fst (insert_propietario (Some (AtRun, e)) propietario db))"
  apply (intro conjI impI)
  subgoal by (simp add: insert_propietario_fault)
  subgoal premises g by (rule writes_fault(1) [OF conjunct1 [OF g] conjunct2 [OF g]])
  subgoal premises g by (rule writes_fault(2) [OF conjunct1 [OF g] conjunct2 [OF g]])
  subgoal premises g by (rule writes_fault(3) [OF conjunct1 [OF g] conjunct2 [OF g]])
  subgoal premises g by (rule writes_fault(4) [OF conjunct1 [OF g] conjunct2 [OF g]])
  subgoal premises g by (rule writes_fault(5) [OF conjunct1 [OF g] conjunct2 [OF g]])
  subgoal premises g by (rule writes_fault(6) [OF conjunct1 [OF g] conjunct2 [OF g]])
  subgoal premises g by (rule writes_fault(7) [OF conjunct1 [OF g] conjunct2 [OF g]])
  subgoal premises g by (rule writes_fault(8) [OF conjunct1 [OF g] conjunct2 [OF g]])
  subgoal by (simp add: reads_all_fault)
  subgoal by (simp add: reads_all_fault)
  subgoal by (simp add: reads_all_fault)
  subgoal premises g by (rule reads_by_id_fault(1) [OF conjunct1 [OF g] conjunct2 [OF g]])
  subgoal premises g by (rule reads_by_id_fault(2) [OF conjunct1 [OF g] conjunct2 [OF g]])
  subgoal premises g by (rule reads_by_id_fault(3) [OF conjunct1 [OF g] conjunct2 [OF g]])
  subgoal premises g by (rule reads_by_id_fault(4) [OF conjunct1 [OF g] conjunct2 [OF g]])
  subgoal by (simp add: get_propietario_by_id_missing reads_by_id_fault)
  subgoal by (simp add: update_propietario_missing)
  subgoal by (simp add: delete_propietario_missing delete_propietario_fault_run)
  subgoal by (simp add: insert_propietario_name_taken_None insert_propietario_fault)
  done

theorem C10_witness:
  "AtCommit \<noteq> AtFetch \<and> AtFetch \<noteq> AtCommit \<and>
   sqlite_integer (Some 2) \<and> sqlite_integer (Some (masc_edad Rex)) \<and>
   sqlite_integer (masc_propietario_id Rex) \<and> sqlite_integer (cons_mascota_id visita) \<and>
   list_all sqlite_integer (values_m [Edad_m 4]) \<and>
   list_all sqlite_integer (values_c [Motivo_c ''control'']) \<and>
   Some 2 \<notin> Some ` p_id ` set (propietarios db_Rex) \<and>
   (\<exists>p \<in> set (propietarios db_Rex). p_nombre p = prop_nombre Ana) \<and>
   fst (insert_propietario (Some (AtCommit, OperationalError)) Ana db_Rex) = Inr None \<and>
   fst (insert_mascota (Some (AtCommit, OperationalError)) Rex db_Rex) = Inr None \<and>
   fst (update_mascota (Some (AtCommit, OperationalError)) (Some 2) [Edad_m 4] db_Rex)
     = Inr False \<and>
   fst (delete_consulta (Some (AtCommit, OperationalError)) (Some 2) db_Rex) = Inr False \<and>
   get_all_mascotas (Some (AtFetch, OperationalError)) db_Rex = Inr [] \<and>
   get_consultas_by_mascota_id (Some (AtFetch, OperationalError)) (Some 2) db_Rex = Inr [] \<and>
   get_propietario_by_id None (Some 2) db_Rex
     = get_propietario_by_id (Some (AtRun, OperationalError)) (Some 2) db_Rex \<and>
   fst (insert_propietario None Ana db_Rex)
     = fst (insert_propietario (Some (AtRun, OperationalError)) Ana db_Rex)"
  using C10_database_errors_return_sentinels
    [of AtCommit OperationalError Ana db_Rex "Some 2" Rex visita "[Edad_m 4]"
        "[Motivo_c ''control'']" "[Telefono_p ''555-0000'']" "''Ana''"]
    C10_database_errors_return_sentinels
    [of AtFetch OperationalError Ana db_Rex "Some 2" Rex visita "[Edad_m 4]"
        "[Motivo_c ''control'']" "[Telefono_p ''555-0000'']" "''Ana''"]
  unfolding db_Rex_eq
  by (simp add: Ana_def Rex_def visita_def sqlite_integer_def values_m_def values_c_def)

subsection \<open>What a turn at the menu preserves\<close>

text \<open>
  A property of the database that every writing operation of the store preserves, given
  the values the workflows pass to it, holds after every turn.
\<close>

lemma write_inv:
  assumes "P db" and "\<And>n db'. r = Inr (n, db') \<Longrightarrow> P db'"
  shows "P (snd (case execute flt c ps r of
                   Inl x \<Rightarrow> (f x, db)
                 | Inr (n, db') \<Rightarrow>
                     (case commit flt of
                        Inl x \<Rightarrow> (f' x, db')
                      | Inr u \<Rightarrow> (g n, db'))))"
  using assms execute_cases [of flt c ps r] commit_cases [of flt]
  by (auto split: sum.splits prod.splits)

lemma leer_edad_no_negativa: "leer_edad edades = Inr edad \<Longrightarrow> 0 \<le> edad"
  by (induction edades) (auto split: if_splits)

lemma get_propietario_or_create_inv:
  assumes "P db"
    and ip: "\<And>f p d. P d \<Longrightarrow> P (snd (insert_propietario f p d))"
  shows "P (snd (get_propietario_or_create flt owner_name reg nn tn dn db))"
  using assms(1) ip [of db]
  by (auto simp: get_propietario_or_create_def split: sum.splits option.splits)

lemma registrar_mascota_inv:
  assumes "P db"
    and ip: "\<And>f p d. P d \<Longrightarrow> P (snd (insert_propietario f p d))"
    and im: "\<And>f m d. P d \<Longrightarrow> 0 \<le> masc_edad m \<Longrightarrow> P (snd (insert_mascota f m d))"
  shows "P (snd (registrar_mascota flt n e r edades np reg nn tn dn db))"
proof (cases "leer_edad edades")
  case (Inl x)
  with assms(1) show ?thesis by (simp add: registrar_mascota_def)
next
  case (Inr edad)
  then have edad: "0 \<le> edad" by (rule leer_edad_no_negativa)
  obtain res db1 where gp: "get_propietario_or_create flt (strip np) reg nn tn dn db = (res, db1)"
    by (cases "get_propietario_or_create flt (strip np) reg nn tn dn db")
  have db1: "P db1"
    using get_propietario_or_create_inv [of P db flt "strip np" reg nn tn dn, OF assms(1) ip] gp
    by simp
  show ?thesis
  proof (cases res)
    case (Inl x)
    with Inr gp db1 show ?thesis by (simp add: registrar_mascota_def)
  next
    case r: (Inr po)
    show ?thesis
    proof (cases po)
      case None
      with Inr gp db1 r show ?thesis by (simp add: registrar_mascota_def)
    next
      case (Some propietario)
      let ?m = "\<lparr>masc_id = None, masc_nombre = n, masc_especie = e, masc_raza = r,
                 masc_edad = edad, masc_propietario_id = prop_id propietario,
                 masc_propietario_nombre = None\<rparr>"
      have "P (snd (insert_mascota (flt 3) ?m db1))"
        using im [OF db1, of ?m] edad by simp
      with Inr gp r Some show ?thesis
        by (auto simp: registrar_mascota_def split: prod.splits sum.splits option.splits)
    qed
  qed
qed

lemma registrar_consulta_inv:
  assumes "P db" "valid_date fecha"
    and ic: "\<And>f c d. P d \<Longrightarrow> valid_date (cons_fecha c) \<Longrightarrow> P (snd (insert_consulta f c d))"
  shows "P (snd (registrar_consulta flt i fecha mo dg db))"
proof -
  have rel: "P d'" if "insert_consulta f c db = (res, d')" "cons_fecha c = fecha" for f c res d'
    using ic [OF assms(1), of c f] that assms(2) by simp
  show ?thesis
    using assms(1)
    by (auto simp: registrar_consulta_def Consulta_init_def
             split: prod.splits sum.splits option.splits intro: rel)
qed

lemma actualizar_propietario_inv:
  assumes "P db"
    and up: "\<And>f i nd d. P d \<Longrightarrow> P (snd (update_propietario f i nd d))"
  shows "P (snd (actualizar_propietario flt i n t d db))"
proof -
  have rel: "P d'" if "update_propietario f j nd db = (res, d')" for f j nd res d'
    using up [OF assms(1), of f j nd] that by simp
  show ?thesis
    using assms(1)
    by (auto simp: actualizar_propietario_def Let_def
             split: prod.splits sum.splits option.splits intro: rel)
qed

lemma eliminar_propietario_inv:
  assumes "P db"
    and dp: "\<And>f i d. P d \<Longrightarrow> P (snd (delete_propietario f i d))"
  shows "P (snd (eliminar_propietario flt i seguro db))"
proof -
  have rel: "P d'" if "delete_propietario f j db = (res, d')" for f j res d'
    using dp [OF assms(1), of f j] that by simp
  show ?thesis
    using assms(1)
    by (auto simp: eliminar_propietario_def split: prod.splits sum.splits option.splits
             intro: rel)
qed

lemma eliminar_mascota_inv:
  assumes "P db"
    and dm: "\<And>f i d. P d \<Longrightarrow> P (snd (delete_mascota f i d))"
  shows "P (snd (eliminar_mascota flt i seguro db))"
proof -
  have rel: "P d'" if "delete_mascota f j db = (res, d')" for f j res d'
    using dm [OF assms(1), of f j] that by simp
  show ?thesis
    using assms(1)
    by (auto simp: eliminar_mascota_def split: prod.splits sum.splits option.splits
             intro: rel)
qed

lemma eliminar_consulta_inv:
  assumes "P db"
    and dc: "\<And>f i d. P d \<Longrightarrow> P (snd (delete_consulta f i d))"
  shows "P (snd (eliminar_consulta flt i seguro db))"
proof -
  have rel: "P d'" if "delete_consulta f j db = (res, d')" for f j res d'
    using dc [OF assms(1), of f j] that by simp
  show ?thesis
    using assms(1)
    by (auto simp: eliminar_consulta_def split: prod.splits sum.splits option.splits
             intro: rel)
qed

lemma listar_inv:
  "snd (listar_propietarios flt db) = db" "snd (listar_mascotas flt db) = db"
  "snd (historia_clinica flt i db) = db"
  by (auto simp: listar_propietarios_def listar_mascotas_def historia_clinica_def
           split: sum.splits option.splits)

lemma edad_item_no_negativa: "Edad_m v \<in> set (edad_item x) \<Longrightarrow> 0 \<le> v"
  by (cases x) (auto split: if_splits)

lemma actualizar_mascota_inv:
  assumes "P db"
    and um: "\<And>f i nd d. P d \<Longrightarrow> \<forall>v. Edad_m v \<in> set nd \<longrightarrow> 0 \<le> v
                 \<Longrightarrow> P (snd (update_mascota f i nd d))"
  shows "P (snd (actualizar_mascota flt i n e r edad cambiar np db))"
proof -
  have rel: "P d'"
    if "update_mascota f j nd db = (res, d')" "\<forall>v. Edad_m v \<in> set nd \<longrightarrow> 0 \<le> v"
    for f j nd res d'
    using um [OF assms(1) that(2), of f j] that(1) by simp
  have nd: "\<forall>v. Edad_m v \<in> set (nuevo_item n Nombre_m @ nuevo_item e Especie_m
                @ nuevo_item r Raza_m @ edad_item edad
                @ (case po of None \<Rightarrow> [] | Some p \<Rightarrow> [Id_propietario_m (prop_id p)]))
              \<longrightarrow> 0 \<le> v" for po
    by (auto simp: nuevo_item_def dest: edad_item_no_negativa split: option.splits if_splits)
  show ?thesis
  proof (cases "get_mascota_by_id (flt 0) (Some i) db")
    case (Inl x)
    with assms(1) show ?thesis by (simp add: actualizar_mascota_def)
  next
    case m: (Inr mo)
    show ?thesis
    proof (cases mo)
      case None
      with m assms(1) show ?thesis by (simp add: actualizar_mascota_def)
    next
      case (Some mascota)
      show ?thesis
      proof (cases "if cambiar then get_propietario_by_nombre (flt 1) (strip np) db else Inr None")
        case (Inl x)
        with m Some assms(1) show ?thesis by (simp add: actualizar_mascota_def)
      next
        case (Inr po)
        obtain res d' where u: "update_mascota (flt 2) (masc_id mascota)
            (nuevo_item n Nombre_m @ nuevo_item e Especie_m @ nuevo_item r Raza_m
             @ edad_item edad
             @ (case po of None \<Rightarrow> [] | Some p \<Rightarrow> [Id_propietario_m (prop_id p)])) db = (res, d')"
          by (metis surj_pair)
        have "P d'" using rel [OF u nd] .
        with m Some Inr u assms(1) show ?thesis
          by (simp add: actualizar_mascota_def Let_def split: sum.splits)
      qed
    qed
  qed
qed

lemma actualizar_consulta_inv:
  assumes "P db" "entrada_valida (Opcion8 i fecha mo dg)"
    and uc: "\<And>f i nd d. P d \<Longrightarrow>
                 \<forall>x. Fecha_c x \<in> set nd \<longrightarrow> (\<exists>dt. x = Fecha_date dt \<and> valid_date dt)
                 \<Longrightarrow> P (snd (update_consulta f i nd d))"
  shows "P (snd (actualizar_consulta flt i fecha mo dg db))"
proof -
  have nd: "\<forall>x. Fecha_c x \<in> set (fecha_item fecha @ nuevo_item mo Motivo_c
                @ nuevo_item dg Diagnostico_c) \<longrightarrow> (\<exists>dt. x = Fecha_date dt \<and> valid_date dt)"
    using assms(2) by (cases fecha) (auto simp: nuevo_item_def split: if_splits)
  show ?thesis
  proof (cases "get_consulta_by_id (flt 0) (Some i) db")
    case (Inl x)
    with assms(1) show ?thesis by (simp add: actualizar_consulta_def)
  next
    case c: (Inr co)
    show ?thesis
    proof (cases co)
      case None
      with c assms(1) show ?thesis by (simp add: actualizar_consulta_def)
    next
      case (Some consulta)
      obtain res d' where u: "update_consulta (flt 1) (cons_id consulta)
          (fecha_item fecha @ nuevo_item mo Motivo_c @ nuevo_item dg Diagnostico_c) db = (res, d')"
        by (metis surj_pair)
      have "P d'" using uc [OF assms(1) nd, of "flt 1" "cons_id consulta"] u by simp
      with c Some u assms(1) show ?thesis
        by (simp add: actualizar_consulta_def Let_def split: sum.splits)
    qed
  qed
qed

lemma turno_inv:
  assumes "P db" "entrada_valida op"
    and ip: "\<And>f p d. P d \<Longrightarrow> P (snd (insert_propietario f p d))"
    and up: "\<And>f i nd d. P d \<Longrightarrow> P (snd (update_propietario f i nd d))"
    and dp: "\<And>f i d. P d \<Longrightarrow> P (snd (delete_propietario f i d))"
    and im: "\<And>f m d. P d \<Longrightarrow> 0 \<le> masc_edad m \<Longrightarrow> P (snd (insert_mascota f m d))"
    and um: "\<And>f i nd d. P d \<Longrightarrow> \<forall>v. Edad_m v \<in> set nd \<longrightarrow> 0 \<le> v
                 \<Longrightarrow> P (snd (update_mascota f i nd d))"
    and dm: "\<And>f i d. P d \<Longrightarrow> P (snd (delete_mascota f i d))"
    and ic: "\<And>f c d. P d \<Longrightarrow> valid_date (cons_fecha c) \<Longrightarrow> P (snd (insert_consulta f c d))"
    and uc: "\<And>f i nd d. P d \<Longrightarrow>
                 \<forall>x. Fecha_c x \<in> set nd \<longrightarrow> (\<exists>dt. x = Fecha_date dt \<and> valid_date dt)
                 \<Longrightarrow> P (snd (update_consulta f i nd d))"
    and dc: "\<And>f i d. P d \<Longrightarrow> P (snd (delete_consulta f i d))"
  shows "P (snd (turno flt op db))"
proof (cases op)
  case (Opcion1 n e r edades np reg nn tn dn)
  then show ?thesis using registrar_mascota_inv [of P, OF assms(1) ip im] by simp
next
  case (Opcion2 i fecha mo dg)
  then show ?thesis using registrar_consulta_inv [of P, OF assms(1) _ ic] assms(2) by simp
next
  case Opcion3
  then show ?thesis using assms(1) by (simp add: listar_inv)
next
  case Opcion4
  then show ?thesis using assms(1) by (simp add: listar_inv)
next
  case (Opcion5 i)
  then show ?thesis using assms(1) by (simp add: listar_inv)
next
  case (Opcion6 i n t d)
  then show ?thesis using actualizar_propietario_inv [of P, OF assms(1) up] by simp
next
  case (Opcion7 i n e r edad cambiar np)
  then show ?thesis using actualizar_mascota_inv [of P, OF assms(1) um] by simp
next
  case (Opcion8 i fecha mo dg)
  then show ?thesis using actualizar_consulta_inv [of P, OF assms(1) _ uc] assms(2) by simp
next
  case (Opcion9 i seguro)
  then show ?thesis using eliminar_propietario_inv [of P, OF assms(1) dp] by simp
next
  case (Opcion10 i seguro)
  then show ?thesis using eliminar_mascota_inv [of P, OF assms(1) dm] by simp
next
  case (Opcion11 i seguro)
  then show ?thesis using eliminar_consulta_inv [of P, OF assms(1) dc] by simp
qed

subsection \<open>Ages of the pets\<close>

lemma set_mascotas_edad:
  assumes "0 \<le> m_edad r" and "\<forall>v. Edad_m v \<in> set new_data \<longrightarrow> 0 \<le> v"
  shows "0 \<le> m_edad (set_mascotas new_data r)"
  using assms unfolding set_mascotas_def
proof (induction new_data arbitrary: r)
  case Nil
  then show ?case by simp
next
  case (Cons x xs)
  have "0 \<le> m_edad (set_mascota r x)"
    using Cons.prems by (cases x) auto
  then show ?case using Cons by simp
qed

lemma edades_insert_propietario:
  "edades_no_negativas db \<Longrightarrow> edades_no_negativas (snd (insert_propietario flt p db))"
  unfolding insert_propietario_def
  by (rule write_inv)
     (auto simp: sql_insert_propietario_def edades_no_negativas_def split: sum.splits if_splits)

lemma edades_update_propietario:
  "edades_no_negativas db \<Longrightarrow> edades_no_negativas (snd (update_propietario flt i nd db))"
  unfolding update_propietario_def
  by (rule write_inv)
     (auto simp: sql_update_propietarios_def edades_no_negativas_def Let_def split: if_splits)

lemma edades_delete_propietario:
  "edades_no_negativas db \<Longrightarrow> edades_no_negativas (snd (delete_propietario flt i db))"
  unfolding delete_propietario_def
  by (rule write_inv)
     (auto simp: sql_delete_propietarios_def edades_no_negativas_def Let_def split: if_splits)

lemma edades_insert_mascota:
  "edades_no_negativas db \<Longrightarrow> 0 \<le> masc_edad m \<Longrightarrow>
   edades_no_negativas (snd (insert_mascota flt m db))"
  unfolding insert_mascota_def
  by (rule write_inv)
     (auto simp: sql_insert_mascota_def edades_no_negativas_def split: sum.splits if_splits)

lemma edades_update_mascota:
  "edades_no_negativas db \<Longrightarrow> \<forall>v. Edad_m v \<in> set nd \<longrightarrow> 0 \<le> v \<Longrightarrow>
   edades_no_negativas (snd (update_mascota flt i nd db))"
  unfolding update_mascota_def
  by (rule write_inv)
     (auto simp: sql_update_mascotas_def edades_no_negativas_def Let_def set_mascotas_edad
           split: if_splits)

lemma edades_delete_mascota:
  "edades_no_negativas db \<Longrightarrow> edades_no_negativas (snd (delete_mascota flt i db))"
  unfolding delete_mascota_def
  by (rule write_inv)
     (auto simp: sql_delete_mascotas_def edades_no_negativas_def Let_def split: if_splits)

lemma edades_insert_consulta:
  "edades_no_negativas db \<Longrightarrow> edades_no_negativas (snd (insert_consulta flt c db))"
  unfolding insert_consulta_def
  by (rule write_inv)
     (auto simp: sql_insert_consulta_def edades_no_negativas_def split: sum.splits if_splits)

lemma edades_update_consulta:
  "edades_no_negativas db \<Longrightarrow> edades_no_negativas (snd (update_consulta flt i nd db))"
  unfolding update_consulta_def
  by (rule write_inv)
     (auto simp: sql_update_consultas_def edades_no_negativas_def Let_def split: if_splits)

lemma edades_delete_consulta:
  "edades_no_negativas db \<Longrightarrow> edades_no_negativas (snd (delete_consulta flt i db))"
  unfolding delete_consulta_def
  by (rule write_inv) (auto simp: sql_delete_consultas_def edades_no_negativas_def)

lemma reachable_edades: "reachable db \<Longrightarrow> edades_no_negativas db"
proof (induction rule: reachable.induct)
  case (inicio err db)
  then have "db = db_nueva" by (rule DatabaseManager_Inr)
  then show ?case
    by (simp add: edades_no_negativas_def db_nueva_eq)
next
  case (paso db op flt)
  show ?case
    by (rule turno_inv [of edades_no_negativas, OF paso.IH paso.hyps(2)])
       (simp_all add: edades_insert_propietario edades_update_propietario
          edades_delete_propietario edades_insert_mascota edades_update_mascota
          edades_delete_mascota edades_insert_consulta edades_update_consulta
          edades_delete_consulta)
qed

lemma reachable_db_Bob: "reachable db_Bob"
  unfolding db_Bob_def by (intro reachable.paso reachable_db_nueva) simp_all

text \<open>
  Claim C8. In every state of the database the program reaches, whatever the inputs and
  the faults, every pet row has an age of at least 0. A negative age typed in
  \<^verbatim>\<open>registrar_mascota\<close> is discarded and asked again before anything is inserted (the
  workflow goes on as if it had not been typed); a negative age typed in
  \<^verbatim>\<open>actualizar_mascota\<close> is refused like a text that is no integer, and the age is left
  out of the update.
\<close>

theorem C8_no_negative_age:
  "(reachable db \<longrightarrow> (\<forall>m \<in> set (mascotas db). 0 \<le> m_edad m)) \<and>
   (edad < 0 \<longrightarrow>
      registrar_mascota flt n e r (edad # edades) np reg nn tn dn db
        = registrar_mascota flt n e r edades np reg nn tn dn db) \<and>
   (edad < 0 \<longrightarrow>
      actualizar_mascota flt i n e r (Edad_entera edad) cambiar np db
        = actualizar_mascota flt i n e r Edad_no_entera cambiar np db)"
proof (intro conjI impI)
  assume "reachable db"
  then show "\<forall>m \<in> set (mascotas db). 0 \<le> m_edad m"
    using reachable_edades [of db] by (simp add: edades_no_negativas_def)
next
  assume "edad < 0"
  then show "registrar_mascota flt n e r (edad # edades) np reg nn tn dn db
        = registrar_mascota flt n e r edades np reg nn tn dn db"
    by (simp add: registrar_mascota_def)
next
  assume "edad < 0"
  then have item: "edad_item (Edad_entera edad) = edad_item Edad_no_entera"
    by simp
  show "actualizar_mascota flt i n e r (Edad_entera edad) cambiar np db
        = actualizar_mascota flt i n e r Edad_no_entera cambiar np db"
    unfolding actualizar_mascota_def item ..
qed

theorem C8_witness:
  "reachable db_Bob \<and> list_all (\<lambda>m. 0 \<le> m_edad m) (mascotas db_Bob) \<and>
   (-1::int) < 0 \<and>
   registrar_mascota sin_fallos ''Tom'' ''cat'' ''siames'' [-1, 2] ''a_a'' True ''a_a''
     ''555-2222'' ''Calle 2'' db_Bob = (Inr Registrado, db_Bob_a_a) \<and>
   actualizar_mascota sin_fallos 1 [] [] [] (Edad_entera (-1)) False [] db_Bob
     = (Inr SinDatos, db_Bob)"
proof -
  have a: "registrar_mascota sin_fallos ''Tom'' ''cat'' ''siames'' [2] ''a_a'' True ''a_a''
     ''555-2222'' ''Calle 2'' db_Bob = (Inr Registrado, db_Bob_a_a)"
    unfolding db_Bob_eq db_Bob_a_a_eq by (simp add: eval_defs)
  have b: "actualizar_mascota sin_fallos 1 [] [] [] Edad_no_entera False [] db_Bob
     = (Inr SinDatos, db_Bob)"
    unfolding db_Bob_eq by (simp add: eval_defs)
  from C8_no_negative_age [where db = db_Bob and edad = "-1" and flt = sin_fallos
      and n = "''Tom''" and e = "''cat''" and r = "''siames''" and edades = "[2]"
      and np = "''a_a''" and reg = True and nn = "''a_a''" and tn = "''555-2222''"
      and dn = "''Calle 2''"]
    C8_no_negative_age [where db = db_Bob and edad = "-1" and flt = sin_fallos
      and n = "[]" and e = "[]" and r = "[]" and i = 1 and cambiar = False and np = "[]"]
    reachable_db_Bob a b
  show ?thesis by (simp add: list_all_iff)
qed

subsection \<open>The ids of the pets\<close>

text \<open>
  In every state the program reaches, the ids of the pet rows are distinct and within the
  64 bits of the engine's INTEGER: they are assigned from the counter of the table, one
  after the other, and no statement of the program changes an id.
\<close>

lemma fold_max_bounded: "\<forall>x \<in> set ids. x \<le> seq \<Longrightarrow> fold max ids (seq::int) = seq"
  by (induction ids arbitrary: seq) (simp_all add: max_def)

lemma m_id_set_mascotas: "m_id (set_mascotas new_data r) = m_id r"
  unfolding set_mascotas_def
proof (induction new_data arbitrary: r)
  case Nil
  then show ?case by simp
next
  case (Cons x xs)
  have "m_id (set_mascota r x) = m_id r" by (cases x) simp_all
  then show ?case using Cons [of "set_mascota r x"] by simp
qed

lemma map_m_id_update:
  "map (m_id \<circ> (\<lambda>r. if P r then set_mascotas new_data r else r)) rows = map m_id rows"
  by (induction rows) (simp_all add: m_id_set_mascotas)

lemma ids_insert_propietario:
  "ids_mascotas db \<Longrightarrow> ids_mascotas (snd (insert_propietario flt p db))"
  unfolding insert_propietario_def
  by (rule write_inv)
     (auto simp: sql_insert_propietario_def ids_mascotas_def split: sum.splits if_splits)

lemma ids_update_propietario:
  "ids_mascotas db \<Longrightarrow> ids_mascotas (snd (update_propietario flt i nd db))"
  unfolding update_propietario_def
  by (rule write_inv)
     (auto simp: sql_update_propietarios_def ids_mascotas_def Let_def split: if_splits)

lemma ids_delete_propietario:
  "ids_mascotas db \<Longrightarrow> ids_mascotas (snd (delete_propietario flt i db))"
  unfolding delete_propietario_def
  by (rule write_inv)
     (auto simp: sql_delete_propietarios_def ids_mascotas_def Let_def distinct_map_filter
           split: if_splits)

lemma ids_insert_mascota:
  assumes "ids_mascotas db"
  shows "ids_mascotas (snd (insert_mascota flt m db))"
  unfolding insert_mascota_def
proof (rule write_inv)
  show "ids_mascotas db" by fact
next
  fix n db'
  assume ins: "sql_insert_mascota (masc_nombre m) (masc_especie m) (masc_raza m) (masc_edad m)
                 (masc_propietario_id m) db = Inr (n, db')"
  have top: "fold max (map m_id (mascotas db)) (seq_mascotas db) = seq_mascotas db"
    using assms by (intro fold_max_bounded) (auto simp: ids_mascotas_def)
  from ins have n: "n = seq_mascotas db + 1" "seq_mascotas db < 9223372036854775807"
    and db': "db' = db\<lparr>mascotas := mascotas db @
                            [\<lparr>m_id = n, m_nombre = masc_nombre m, m_especie = masc_especie m,
                              m_raza = masc_raza m, m_edad = masc_edad m,
                              m_id_propietario = masc_propietario_id m\<rparr>],
                          seq_mascotas := n\<rparr>"
    by (auto simp: sql_insert_mascota_def new_rowid_def top Let_def split: sum.splits if_splits)
  show "ids_mascotas db'"
    using assms n unfolding db' ids_mascotas_def by (auto simp: image_iff)
qed

lemma ids_update_mascota:
  "ids_mascotas db \<Longrightarrow> ids_mascotas (snd (update_mascota flt i nd db))"
  unfolding update_mascota_def
  by (rule write_inv)
     (auto simp: sql_update_mascotas_def ids_mascotas_def Let_def map_m_id_update
             m_id_set_mascotas
           split: if_splits)

lemma ids_delete_mascota:
  "ids_mascotas db \<Longrightarrow> ids_mascotas (snd (delete_mascota flt i db))"
  unfolding delete_mascota_def
  by (rule write_inv)
     (auto simp: sql_delete_mascotas_def ids_mascotas_def Let_def distinct_map_filter
           split: if_splits)

lemma ids_insert_consulta:
  "ids_mascotas db \<Longrightarrow> ids_mascotas (snd (insert_consulta flt c db))"
  unfolding insert_consulta_def
  by (rule write_inv)
     (auto simp: sql_insert_consulta_def ids_mascotas_def split: sum.splits if_splits)

lemma ids_update_consulta:
  "ids_mascotas db \<Longrightarrow> ids_mascotas (snd (update_consulta flt i nd db))"
  unfolding update_consulta_def
  by (rule write_inv)
     (auto simp: sql_update_consultas_def ids_mascotas_def Let_def split: if_splits)

lemma ids_delete_consulta:
  "ids_mascotas db \<Longrightarrow> ids_mascotas (snd (delete_consulta flt i db))"
  unfolding delete_consulta_def
  by (rule write_inv) (auto simp: sql_delete_consultas_def ids_mascotas_def)

lemma reachable_ids: "reachable db \<Longrightarrow> ids_mascotas db"
proof (induction rule: reachable.induct)
  case (inicio err db)
  then have "db = db_nueva" by (rule DatabaseManager_Inr)
  then show ?case
    by (simp add: ids_mascotas_def db_nueva_eq)
next
  case (paso db op flt)
  show ?case
    by (rule turno_inv [of ids_mascotas, OF paso.IH paso.hyps(2)])
       (simp_all add: ids_insert_propietario ids_update_propietario
          ids_delete_propietario ids_insert_mascota ids_update_mascota
          ids_delete_mascota ids_insert_consulta ids_update_consulta
          ids_delete_consulta)
qed

lemma reachable_pet_ids:
  assumes "reachable db"
  shows "distinct (map m_id (mascotas db))"
    and "\<forall>m \<in> set (mascotas db). sqlite_integer (Some (m_id m))"
  using reachable_ids [OF assms] by (auto simp: ids_mascotas_def sqlite_integer_def)

subsection \<open>The visits of a pet, latest first\<close>

lemma strptime_valid: "strptime_Ymd s = Some d \<Longrightarrow> valid_date d"
  by (cases s rule: strptime_Ymd.cases)
     (auto simp: Let_def split: if_splits option.splits list.splits prod.splits)

lemma fecha_iso_strftime: "valid_date d \<Longrightarrow> fecha_iso (strftime_Ymd d)"
  by (cases "1000 \<le> year d")
     (simp_all add: fecha_iso_def strptime_strftime strptime_strftime_short)

lemma fecha_iso_read:
  assumes "fecha_iso f" "strptime_Ymd f = Some d"
  shows "valid_date d" "1000 \<le> year d" "strftime_Ymd d = f"
proof -
  show v: "valid_date d" using assms(2) by (rule strptime_valid)
  show f: "strftime_Ymd d = f" using assms by (simp add: fecha_iso_def)
  show "1000 \<le> year d"
  proof (rule ccontr)
    assume "\<not> 1000 \<le> year d"
    then have "strptime_Ymd (strftime_Ymd d) = None"
      by (simp add: strptime_strftime_short)
    with f assms(2) show False by simp
  qed
qed

lemma set_consultas_fecha:
  assumes "fecha_iso (c_fecha r)"
    and "\<forall>x. Fecha_c x \<in> set new_data \<longrightarrow> (\<exists>dt. x = Fecha_date dt \<and> valid_date dt)"
  shows "fecha_iso (c_fecha (set_consultas (map fecha_strftime new_data) r))"
  using assms unfolding set_consultas_def
proof (induction new_data arbitrary: r)
  case Nil
  then show ?case by simp
next
  case (Cons x xs)
  have "fecha_iso (c_fecha (set_consulta r (fecha_strftime x)))"
  proof (cases x)
    case (Fecha_c f)
    with Cons.prems(2) obtain dt where "f = Fecha_date dt" "valid_date dt" by auto
    with Fecha_c show ?thesis by (simp add: fecha_iso_strftime)
  qed (use Cons.prems(1) in simp_all)
  then show ?case using Cons by simp
qed

lemma fechas_insert_propietario:
  "fechas_iso db \<Longrightarrow> fechas_iso (snd (insert_propietario flt p db))"
  unfolding insert_propietario_def
  by (rule write_inv)
     (auto simp: sql_insert_propietario_def fechas_iso_def split: sum.splits if_splits)

lemma fechas_update_propietario:
  "fechas_iso db \<Longrightarrow> fechas_iso (snd (update_propietario flt i nd db))"
  unfolding update_propietario_def
  by (rule write_inv)
     (auto simp: sql_update_propietarios_def fechas_iso_def Let_def split: if_splits)

lemma fechas_delete_propietario:
  "fechas_iso db \<Longrightarrow> fechas_iso (snd (delete_propietario flt i db))"
  unfolding delete_propietario_def
  by (rule write_inv)
     (auto simp: sql_delete_propietarios_def fechas_iso_def Let_def split: if_splits)

lemma fechas_insert_mascota:
  "fechas_iso db \<Longrightarrow> fechas_iso (snd (insert_mascota flt m db))"
  unfolding insert_mascota_def
  by (rule write_inv)
     (auto simp: sql_insert_mascota_def fechas_iso_def split: sum.splits if_splits)

lemma fechas_update_mascota:
  "fechas_iso db \<Longrightarrow> fechas_iso (snd (update_mascota flt i nd db))"
  unfolding update_mascota_def
  by (rule write_inv)
     (auto simp: sql_update_mascotas_def fechas_iso_def Let_def split: if_splits)

lemma fechas_delete_mascota:
  "fechas_iso db \<Longrightarrow> fechas_iso (snd (delete_mascota flt i db))"
  unfolding delete_mascota_def
  by (rule write_inv)
     (auto simp: sql_delete_mascotas_def fechas_iso_def Let_def split: if_splits)

lemma fechas_insert_consulta:
  "fechas_iso db \<Longrightarrow> valid_date (cons_fecha c) \<Longrightarrow>
   fechas_iso (snd (insert_consulta flt c db))"
  unfolding insert_consulta_def
  by (rule write_inv)
     (auto simp: sql_insert_consulta_def fechas_iso_def fecha_iso_strftime
           split: sum.splits if_splits)

lemma fechas_update_consulta:
  "fechas_iso db \<Longrightarrow>
   \<forall>x. Fecha_c x \<in> set nd \<longrightarrow> (\<exists>dt. x = Fecha_date dt \<and> valid_date dt) \<Longrightarrow>
   fechas_iso (snd (update_consulta flt i nd db))"
  unfolding update_consulta_def
  by (rule write_inv)
     (auto simp: sql_update_consultas_def fechas_iso_def Let_def set_consultas_fecha
           split: if_splits)

lemma fechas_delete_consulta:
  "fechas_iso db \<Longrightarrow> fechas_iso (snd (delete_consulta flt i db))"
  unfolding delete_consulta_def
  by (rule write_inv) (auto simp: sql_delete_consultas_def fechas_iso_def)

lemma reachable_fechas: "reachable db \<Longrightarrow> fechas_iso db"
proof (induction rule: reachable.induct)
  case (inicio err db)
  then have "db = db_nueva" by (rule DatabaseManager_Inr)
  then show ?case
    by (simp add: fechas_iso_def db_nueva_eq)
next
  case (paso db op flt)
  show ?case
    by (rule turno_inv [of fechas_iso, OF paso.IH paso.hyps(2)])
       (simp_all add: fechas_insert_propietario fechas_update_propietario
          fechas_delete_propietario fechas_insert_mascota fechas_update_mascota
          fechas_delete_mascota fechas_insert_consulta fechas_update_consulta
          fechas_delete_consulta)
qed

lemma Consultas_of_rows_Inr:
  "Consultas_of_rows rows = Inr cs \<Longrightarrow>
   list_all2 (\<lambda>row c. strptime_Ymd (c_fecha (fst row)) = Some (cons_fecha c)) rows cs"
proof (induction rows arbitrary: cs)
  case Nil
  then show ?case by simp
next
  case (Cons row rows)
  from Cons.prems obtain c cs' where c: "Consulta_of_row row = Inr c"
    and cs': "Consultas_of_rows rows = Inr cs'" and cs: "cs = c # cs'"
    by (auto split: sum.splits)
  from c have "strptime_Ymd (c_fecha (fst row)) = Some (cons_fecha c)"
    by (auto simp: Consulta_of_row_def Consulta_init_def split: option.splits)
  with Cons.IH [OF cs'] cs show ?case by simp
qed

lemma Consultas_of_rows_read:
  assumes "\<forall>row \<in> set rows. strptime_Ymd (c_fecha (fst row)) \<noteq> None"
  shows "\<exists>cs. Consultas_of_rows rows = Inr cs"
  using assms
proof (induction rows)
  case Nil
  then show ?case by simp
next
  case (Cons row rows)
  from Cons.prems obtain d where d: "strptime_Ymd (c_fecha (fst row)) = Some d"
    by auto
  from Cons obtain cs where cs: "Consultas_of_rows rows = Inr cs"
    by auto
  show ?case
    using d cs by (simp add: Consulta_of_row_def Consulta_init_def)
qed

lemma fecha_iso_order:
  assumes "fecha_iso f1" "fecha_iso f2" "f2 \<le> f1"
    and "strptime_Ymd f1 = Some d1" "strptime_Ymd f2 = Some d2"
  shows "date_le d2 d1"
proof -
  note r1 = fecha_iso_read [OF assms(1,4)]
  note r2 = fecha_iso_read [OF assms(2,5)]
  from assms(3) have "strftime_Ymd d2 \<le> strftime_Ymd d1"
    by (simp add: r1(3) r2(3))
  then show ?thesis by (simp add: strftime_le [OF r2(1) r1(1) r2(2) r1(2)])
qed

lemma order_by_fecha_desc:
  "sorted_wrt (\<lambda>a b. c_fecha (fst b) \<le> c_fecha (fst a))
     (rev (sort_key (\<lambda>(c, n). c_fecha c) rows))"
proof -
  have "sorted (map (\<lambda>(c, n). c_fecha c) (sort_key (\<lambda>(c, n). c_fecha c) rows))"
    by (rule sorted_sort_key)
  then have "sorted_wrt (\<lambda>a b. c_fecha (fst a) \<le> c_fecha (fst b))
               (sort_key (\<lambda>(c, n). c_fecha c) rows)"
    by (simp add: sorted_wrt_map case_prod_beta)
  then show ?thesis by (simp add: sorted_wrt_rev)
qed

lemma join_consultas_rows:
  "row \<in> set (join_consultas cs db) \<Longrightarrow> fst row \<in> set cs"
  by (auto simp: join_consultas_def)

lemma except_sqlite3_Error_Inr: "except_sqlite3_Error e [] = Inr cs \<Longrightarrow> cs = []"
  by (cases e) simp_all

lemma get_consultas_by_mascota_id_Inr:
  assumes "get_consultas_by_mascota_id flt mascota_id db = Inr cs"
  shows "cs = [] \<or>
         Consultas_of_rows
           (rev (sort_key (\<lambda>(c, n). c_fecha c)
              (rev (join_consultas (filter (\<lambda>c. c_id_mascota c = mascota_id) (consultas db)) db))))
         = Inr cs"
proof -
  let ?rows = "rev (sort_key (\<lambda>(c, n). c_fecha c)
              (rev (join_consultas (filter (\<lambda>c. c_id_mascota c = mascota_id) (consultas db)) db)))"
  let ?x = "execute flt True [mascota_id] (Inr ?rows)"
  from execute_cases [of flt True "[mascota_id]" "Inr ?rows"]
  consider "\<exists>e. ?x = Inl (SqliteError e)" | "?x = Inl OverflowError" | "?x = Inr ?rows"
    by auto
  then show ?thesis
  proof cases
    case 1
    with assms show ?thesis
      by (auto simp: get_consultas_by_mascota_id_def sql_select_consultas_join_mascota_def)
  next
    case 2
    with assms show ?thesis
      by (auto simp: get_consultas_by_mascota_id_def sql_select_consultas_join_mascota_def)
  next
    case 3
    from fetchall_cases [of flt ?rows] show ?thesis
    proof
      assume "fetchall flt ?rows = Inr ?rows"
      with 3 assms show ?thesis
        by (auto simp: get_consultas_by_mascota_id_def sql_select_consultas_join_mascota_def
                 split: sum.splits dest: except_sqlite3_Error_Inr)
    next
      assume "\<exists>e. fetchall flt ?rows = Inl (SqliteError e)"
      with 3 assms show ?thesis
        by (auto simp: get_consultas_by_mascota_id_def sql_select_consultas_join_mascota_def)
    qed
  qed
qed

lemma get_consultas_by_mascota_id_sorted:
  assumes "fechas_iso db" "get_consultas_by_mascota_id flt mascota_id db = Inr cs"
  shows "\<forall>k. Suc k < length cs \<longrightarrow> date_le (cons_fecha (cs ! Suc k)) (cons_fecha (cs ! k))"
proof -
  let ?rows = "rev (sort_key (\<lambda>(c, n). c_fecha c)
              (rev (join_consultas (filter (\<lambda>c. c_id_mascota c = mascota_id) (consultas db)) db)))"
  from get_consultas_by_mascota_id_Inr [OF assms(2)] show ?thesis
  proof
    assume "cs = []"
    then show ?thesis by simp
  next
    assume cs: "Consultas_of_rows ?rows = Inr cs"
    have iso: "\<forall>row \<in> set ?rows. fecha_iso (c_fecha (fst row))"
      using assms(1) by (auto simp: fechas_iso_def dest!: join_consultas_rows)
    have rel: "list_all2 (\<lambda>row c. strptime_Ymd (c_fecha (fst row)) = Some (cons_fecha c)) ?rows cs"
      using cs by (rule Consultas_of_rows_Inr)
    have desc: "sorted_wrt (\<lambda>a b. c_fecha (fst b) \<le> c_fecha (fst a)) ?rows"
      by (rule order_by_fecha_desc)
    have "date_le (cons_fecha (cs ! Suc k)) (cons_fecha (cs ! k))"
      if k: "Suc k < length cs" for k
    proof -
      have len: "length ?rows = length cs" using rel by (rule list_all2_lengthD)
      have a: "strptime_Ymd (c_fecha (fst (?rows ! k))) = Some (cons_fecha (cs ! k))"
        using list_all2_nthD [OF rel, of k] k len by simp
      have b: "strptime_Ymd (c_fecha (fst (?rows ! Suc k))) = Some (cons_fecha (cs ! Suc k))"
        using list_all2_nthD [OF rel, of "Suc k"] k len by simp
      have le: "c_fecha (fst (?rows ! Suc k)) \<le> c_fecha (fst (?rows ! k))"
        using sorted_wrt_nth_less [OF desc, of k "Suc k"] k len by simp
      have i1: "fecha_iso (c_fecha (fst (?rows ! k)))"
        using iso k len by (metis Suc_lessD nth_mem)
      have i2: "fecha_iso (c_fecha (fst (?rows ! Suc k)))"
        using iso k len by (metis nth_mem)
      show ?thesis by (rule fecha_iso_order [OF i1 i2 le a b])
    qed
    then show ?thesis by blast
  qed
qed

lemma get_consultas_by_mascota_id_returns:
  assumes "sqlite_integer mascota_id"
    and "\<forall>c \<in> set (consultas db). c_id_mascota c = mascota_id \<longrightarrow>
           (\<exists>d. valid_date d \<and> 1000 \<le> year d \<and> c_fecha c = strftime_Ymd d)"
  shows "\<exists>cs. get_consultas_by_mascota_id flt mascota_id db = Inr cs"
proof -
  let ?rows = "rev (sort_key (\<lambda>(c, n). c_fecha c)
              (rev (join_consultas (filter (\<lambda>c. c_id_mascota c = mascota_id) (consultas db)) db)))"
  have "strptime_Ymd (c_fecha (fst row)) \<noteq> None" if "row \<in> set ?rows" for row
  proof -
    from that have "fst row \<in> set (filter (\<lambda>c. c_id_mascota c = mascota_id) (consultas db))"
      by (auto dest: join_consultas_rows)
    with assms(2) obtain d where "valid_date d" "1000 \<le> year d"
      "c_fecha (fst row) = strftime_Ymd d"
      by auto
    then show ?thesis by (simp add: strptime_strftime)
  qed
  then have "\<forall>row \<in> set ?rows. strptime_Ymd (c_fecha (fst row)) \<noteq> None" by blast
  from Consultas_of_rows_read [OF this] obtain cs where cs: "Consultas_of_rows ?rows = Inr cs" ..
  have ps: "list_all sqlite_integer [mascota_id]" using assms(1) by simp
  show ?thesis
    using execute_Inr_cases [OF ps, of flt ?rows] fetchall_cases [of flt ?rows] cs
    by (auto simp: get_consultas_by_mascota_id_def sql_select_consultas_join_mascota_def)
qed

lemma reachable_db_visitas: "reachable db_visitas"
  unfolding db_visitas_def db_Bob_def
  by (intro reachable.paso reachable_db_nueva) (simp_all add: valid_date_def days_in_month_def)

lemma db_visitas_eq:
  "db_visitas =
   \<lparr>propietarios =
      [\<lparr>p_id = 1, p_nombre = ''Bob'', p_telefono = ''555-1111'', p_direccion = ''Calle 1''\<rparr>],
    mascotas =
      [\<lparr>m_id = 1, m_nombre = ''Rex'', m_especie = ''dog'', m_raza = ''lab'', m_edad = 3,
        m_id_propietario = Some 1\<rparr>],
    consultas =
      [\<lparr>c_id = 1, c_fecha = ''2024-05-01'', c_motivo = ''checkup'', c_diagnostico = ''healthy'',
        c_id_mascota = Some 1\<rparr>,
       \<lparr>c_id = 2, c_fecha = ''2025-01-15'', c_motivo = ''control'', c_diagnostico = ''sano'',
        c_id_mascota = Some 1\<rparr>,
       \<lparr>c_id = 3, c_fecha = ''2024-12-31'', c_motivo = ''vacuna'', c_diagnostico = ''sano'',
        c_id_mascota = Some 1\<rparr>,
       \<lparr>c_id = 4, c_fecha = ''2024-05-01'', c_motivo = ''peso'', c_diagnostico = ''sano'',
        c_id_mascota = Some 1\<rparr>],
    seq_propietarios = 1, seq_mascotas = 1, seq_consultas = 4, foreign_keys = False\<rparr>"
  unfolding db_visitas_def db_Bob_eq by (simp add: eval_defs)

lemma historia_db_visitas:
  "get_consultas_by_mascota_id None (Some 1) db_visitas =
     Inr [\<lparr>cons_id = Some 2, cons_fecha = \<lparr>year = 2025, month = 1, day = 15\<rparr>,
            cons_motivo = ''control'', cons_diagnostico = ''sano'', cons_mascota_id = Some 1,
            cons_mascota_nombre = Some ''Rex''\<rparr>,
          \<lparr>cons_id = Some 3, cons_fecha = \<lparr>year = 2024, month = 12, day = 31\<rparr>,
            cons_motivo = ''vacuna'', cons_diagnostico = ''sano'', cons_mascota_id = Some 1,
            cons_mascota_nombre = Some ''Rex''\<rparr>,
          \<lparr>cons_id = Some 1, cons_fecha = \<lparr>year = 2024, month = 5, day = 1\<rparr>,
            cons_motivo = ''checkup'', cons_diagnostico = ''healthy'', cons_mascota_id = Some 1,
            cons_mascota_nombre = Some ''Rex''\<rparr>,
          \<lparr>cons_id = Some 4, cons_fecha = \<lparr>year = 2024, month = 5, day = 1\<rparr>,
            cons_motivo = ''peso'', cons_diagnostico = ''sano'', cons_mascota_id = Some 1,
            cons_mascota_nombre = Some ''Rex''\<rparr>]"
  unfolding db_visitas_eq by (simp add: eval_defs less_char_def less_eq_char_def)

text \<open>
  Claim C6. In every state of the database the program reaches, for every pet id, a
  list of visits that \<^verbatim>\<open>get_consultas_by_mascota_id\<close> returns is in descending order of
  the dates: each visit's date is on or after the date of the visit that follows it.
  The statement orders the rows by the text of the date, descending; a text that
  \<^verbatim>\<open>strptime\<close> reads is the text of a date from the year 1000 on, and these texts are
  ordered as their dates. The operation returns a list when the id is within the 64 bits
  of the engine's INTEGER and the visits of the pet are dated from the year 1000 on.
  (On a visit dated before, \<^verbatim>\<open>Consulta.__init__\<close> raises \<^verbatim>\<open>ValueError\<close>, and no list is
  returned: see the date of a visit, above.)
\<close>

theorem C6_visits_by_pet_descending:
  assumes "reachable db"
  shows "(get_consultas_by_mascota_id flt mascota_id db = Inr cs \<longrightarrow>
            (\<forall>k. Suc k < length cs \<longrightarrow>
                 date_le (cons_fecha (cs ! Suc k)) (cons_fecha (cs ! k)))) \<and>
         (sqlite_integer mascota_id \<and>
          (\<forall>c \<in> set (consultas db). c_id_mascota c = mascota_id \<longrightarrow>
             (\<exists>d. valid_date d \<and> 1000 \<le> year d \<and> c_fecha c = strftime_Ymd d)) \<longrightarrow>
            (\<exists>cs'. get_consultas_by_mascota_id flt mascota_id db = Inr cs'))"
  using reachable_fechas [OF assms]
  by (auto intro: get_consultas_by_mascota_id_sorted [rule_format]
        get_consultas_by_mascota_id_returns)

theorem C6_witness:
  "reachable db_visitas \<and>
   sqlite_integer (Some 1) \<and>
   map c_fecha (consultas db_visitas) =
     map strftime_Ymd [\<lparr>year = 2024, month = 5, day = 1\<rparr>, \<lparr>year = 2025, month = 1, day = 15\<rparr>,
                       \<lparr>year = 2024, month = 12, day = 31\<rparr>, \<lparr>year = 2024, month = 5, day = 1\<rparr>] \<and>
   list_all (\<lambda>d. valid_date d \<and> 1000 \<le> year d)
     [\<lparr>year = 2024, month = 5, day = 1\<rparr>, \<lparr>year = 2025, month = 1, day = 15\<rparr>,
      \<lparr>year = 2024, month = 12, day = 31\<rparr>] \<and>
   map (\<lambda>c. (cons_id c, cons_fecha c))
       (projr (get_consultas_by_mascota_id None (Some 1) db_visitas)) =
     [(Some 2, \<lparr>year = 2025, month = 1, day = 15\<rparr>),
      (Some 3, \<lparr>year = 2024, month = 12, day = 31\<rparr>),
      (Some 1, \<lparr>year = 2024, month = 5, day = 1\<rparr>),
      (Some 4, \<lparr>year = 2024, month = 5, day = 1\<rparr>)] \<and>
   date_le \<lparr>year = 2024, month = 12, day = 31\<rparr> \<lparr>year = 2025, month = 1, day = 15\<rparr> \<and>
   date_le \<lparr>year = 2024, month = 5, day = 1\<rparr> \<lparr>year = 2024, month = 12, day = 31\<rparr> \<and>
   date_le \<lparr>year = 2024, month = 5, day = 1\<rparr> \<lparr>year = 2024, month = 5, day = 1\<rparr>"
proof -
  let ?cs = "projr (get_consultas_by_mascota_id None (Some 1) db_visitas)"
  note c6 = C6_visits_by_pet_descending [OF reachable_db_visitas, of None "Some 1" ?cs]
  have i: "sqlite_integer (Some 1)" by (simp add: sqlite_integer_def)
  have v: "list_all (\<lambda>d. valid_date d \<and> 1000 \<le> year d)
     [\<lparr>year = 2024, month = 5, day = 1\<rparr>, \<lparr>year = 2025, month = 1, day = 15\<rparr>,
      \<lparr>year = 2024, month = 12, day = 31\<rparr>]"
    by (simp add: valid_date_def days_in_month_def is_leap_def)
  have f: "map c_fecha (consultas db_visitas) =
     map strftime_Ymd [\<lparr>year = 2024, month = 5, day = 1\<rparr>, \<lparr>year = 2025, month = 1, day = 15\<rparr>,
                       \<lparr>year = 2024, month = 12, day = 31\<rparr>, \<lparr>year = 2024, month = 5, day = 1\<rparr>]"
    unfolding db_visitas_eq by (simp add: date_defs char_of_eq_iff eq_char_of_iff)
  have w: "\<forall>c \<in> set (consultas db_visitas). c_id_mascota c = Some 1 \<longrightarrow>
             (\<exists>d. valid_date d \<and> 1000 \<le> year d \<and> c_fecha c = strftime_Ymd d)"
  proof (intro ballI impI)
    fix c assume "c \<in> set (consultas db_visitas)"
    then have "c_fecha c \<in> set (map c_fecha (consultas db_visitas))" by simp
    then have "c_fecha c \<in> strftime_Ymd ` {\<lparr>year = 2024, month = 5, day = 1\<rparr>,
        \<lparr>year = 2025, month = 1, day = 15\<rparr>, \<lparr>year = 2024, month = 12, day = 31\<rparr>}"
      unfolding f by auto
    with v show "\<exists>d. valid_date d \<and> 1000 \<le> year d \<and> c_fecha c = strftime_Ymd d"
      by auto
  qed
  from c6 i w obtain cs' where "get_consultas_by_mascota_id None (Some 1) db_visitas = Inr cs'"
    by blast
  then have r: "get_consultas_by_mascota_id None (Some 1) db_visitas = Inr ?cs" by simp
  from c6 r have desc: "\<forall>k. Suc k < length ?cs \<longrightarrow>
      date_le (cons_fecha (?cs ! Suc k)) (cons_fecha (?cs ! k))"
    by blast
  from desc [rule_format, of 0] desc [rule_format, of 1] desc [rule_format, of 2]
    reachable_db_visitas i v f
  show ?thesis
    unfolding historia_db_visitas by simp
qed

end
